theory Spec2Isabelle
  imports Complex_Main "HOL-Library.AList"
begin

section \<open>Data model of \<open>src/back/app.py\<close>\<close>

text \<open>
  The program keeps three module-level dictionaries (\<open>USERS\<close>, \<open>COMPANIES\<close>,
  \<open>EXPENSES\<close>), the module-level list \<open>DEFAULT_APPROVAL_FLOW\<close> and the string
  \<open>CURRENT_USER_ID\<close>. Every dictionary value is itself a dictionary with a fixed set
  of keys; it is a record here, its fields prefixed by the kind of dictionary
  (\<open>u_\<close>, \<open>c_\<close>, \<open>e_\<close>, \<open>s_\<close>, \<open>h_\<close>) because several kinds share key names
  (\<open>id\<close>, \<open>role\<close>, \<open>company_id\<close>).

  A Python list is an object: the company's \<open>approval_config\<close> and the expense's
  \<open>approval_flow\<close> hold a reference to a list, not the list. The lists of steps therefore
  live in a store \<open>LISTS\<close> from addresses to their current contents, and the two
  dictionary fields hold addresses. The step dictionaries and the history lists are
  never shared by the program and are kept as values.

  Floating point numbers are a type parameter \<open>'f\<close>: what \<open>float(...)\<close> and
  \<open>round(amount * rate, 2)\<close> compute is a parameter of the functions that call them.
\<close>

type_synonym addr = nat

record step =
  s_role :: string
  s_step_name :: string

record user =
  u_id :: string
  u_company_id :: string
  u_name :: string
  u_role :: string
  u_manager_id :: "string option"

record company =
  c_id :: string
  c_name :: string
  c_default_currency :: string
  c_approval_config :: addr

record history_entry =
  h_timestamp :: string
  h_action :: string
  h_step :: string
  h_approver_id :: string
  h_comment :: string

record 'f expense =
  e_id :: string
  e_user_id :: string
  e_company_id :: string
  e_amount :: 'f
  e_currency :: string
  e_converted_amount :: 'f
  e_company_currency :: string
  e_category :: string
  e_description :: string
  e_date :: string
  e_status :: string
  e_approval_flow :: addr
  e_current_approver_index :: nat
  e_history :: "history_entry list"

text \<open>
  \<open>EXPENSES\<close> is iterated by \<open>view_pending_expenses\<close>, so it is an association list in
  insertion order; \<open>AList.update\<close> is Python's item assignment (an existing key keeps its
  place, a new key goes to the end). \<open>current_approver_index\<close> is created as \<open>0\<close> and only
  ever incremented, so it is a natural number.
\<close>

record 'f state =
  USERS :: "string \<rightharpoonup> user"
  COMPANIES :: "string \<rightharpoonup> company"
  EXPENSES :: "(string \<times> 'f expense) list"
  LISTS :: "addr \<Rightarrow> step list"
  CURRENT_USER_ID :: string

text \<open>
  A handler either answers with an HTTP error (status code and the value of the
  \<open>error\<close> key of the JSON body), or dies with an uncaught Python exception.
\<close>

datatype error = HTTP nat "string option" | IndexError | KeyError

record 'f float_ops =
  to_float :: "string \<Rightarrow> 'f option"
  round_mul :: "'f \<Rightarrow> rat \<Rightarrow> 'f"

section \<open>The functions\<close>

definition DEFAULT_APPROVAL_FLOW_addr :: addr where
  "DEFAULT_APPROVAL_FLOW_addr = 0"

definition DEFAULT_APPROVAL_FLOW :: "step list" where
  "DEFAULT_APPROVAL_FLOW =
     [\<lparr>s_role = ''Manager'', s_step_name = ''Manager Approval''\<rparr>,
      \<lparr>s_role = ''Finance'', s_step_name = ''Finance Review''\<rparr>,
      \<lparr>s_role = ''Admin'', s_step_name = ''Director Sign-off''\<rparr>]"

text \<open>The state of the module once it is loaded, before \<open>initialize_database\<close>.\<close>

definition module_state :: "'f state" where
  "module_state =
     \<lparr>USERS = Map.empty, COMPANIES = Map.empty, EXPENSES = [],
      LISTS = (\<lambda>_. [])(DEFAULT_APPROVAL_FLOW_addr := DEFAULT_APPROVAL_FLOW),
      CURRENT_USER_ID = ''admin-user-123''\<rparr>"

definition get_current_user_id :: "'f state \<Rightarrow> string" where
  "get_current_user_id s = CURRENT_USER_ID s"

definition get_user_role :: "'f state \<Rightarrow> string \<Rightarrow> string option" where
  "get_user_role s user_id =
     (case USERS s user_id of None \<Rightarrow> None | Some u \<Rightarrow> Some (u_role u))"

text \<open>\<open>', '.join(allowed_roles)\<close>\<close>

fun join_comma :: "string list \<Rightarrow> string" where
  "join_comma [] = []"
| "join_comma [x] = x"
| "join_comma (x # y # ys) = x @ '', '' @ join_comma (y # ys)"

text \<open>
  The decorator \<open>require_role\<close>: \<open>None\<close> lets the decorated function run, \<open>Some e\<close> is
  the response it returns instead.
\<close>

definition require_role :: "string list \<Rightarrow> 'f state \<Rightarrow> error option" where
  "require_role allowed_roles s =
     (let user_id = get_current_user_id s in
      if user_id = [] then Some (HTTP 401 (Some ''Authentication required.''))
      else
        let user_role = get_user_role s user_id in
        if user_role \<notin> set (map Some allowed_roles)
        then Some (HTTP 403 (Some (''Access denied. Required roles: '' @ join_comma allowed_roles)))
        else None)"

text \<open>\<open>USERS.get(employee_id, {}).get('manager_id')\<close>\<close>

definition manager_of :: "'f state \<Rightarrow> string \<Rightarrow> string option" where
  "manager_of s employee_id =
     (case USERS s employee_id of None \<Rightarrow> None | Some employee_data \<Rightarrow> u_manager_id employee_data)"

definition check_can_approve :: "'f state \<Rightarrow> string \<Rightarrow> 'f expense \<Rightarrow> bool \<times> string option" where
  "check_can_approve s user_id expense =
     (if e_status expense \<in> set [''Approved'', ''Rejected'']
      then (False, Some ''This expense is already finalized.'')
      else
        let user_role = get_user_role s user_id in
        if user_role = Some ''Admin'' then (True, None)
        else
          let flow = LISTS s (e_approval_flow expense);
              current_index = e_current_approver_index expense in
          if current_index < length flow
          then
            (let required_role = s_role (flow ! current_index) in
             if user_role = Some required_role
             then
               (if current_index = 0 \<and> required_role = ''Manager''
                then
                  (let employee_id = e_user_id expense in
                   if manager_of s employee_id = Some user_id then (True, None)
                   else (False, Some ''You are not the assigned manager for this employee.''))
                else (True, None))
             else (False, Some ''You do not have the required role/authority for the current approval step.''))
          else (False, Some ''You do not have the required role/authority for the current approval step.''))"

subsection \<open>Currency conversion\<close>

text \<open>
  \<open>str.upper\<close> on the ASCII letters; every other character is left as it is (currency
  codes are modelled as ASCII strings).
\<close>

definition upper_char :: "char \<Rightarrow> char" where
  "upper_char c =
     (case map_of (zip ''abcdefghijklmnopqrstuvwxyz'' ''ABCDEFGHIJKLMNOPQRSTUVWXYZ'') c of
        None \<Rightarrow> c | Some d \<Rightarrow> d)"

definition upper :: "string \<Rightarrow> string" where
  "upper s = map upper_char s"

text \<open>The rates are the decimal literals of the source.\<close>

definition mock_rates :: "string \<rightharpoonup> (string \<rightharpoonup> rat)" where
  "mock_rates =
     map_of
       [(''USD'', map_of [(''EUR'', 93 / 100), (''INR'', 83), (''USD'', 1)]),
        (''EUR'', map_of [(''USD'', 108 / 100), (''INR'', 89), (''EUR'', 1)]),
        (''INR'', map_of [(''USD'', 12 / 1000), (''EUR'', 11 / 1000), (''INR'', 1)])]"

text \<open>
  \<open>mock_rates[from_currency.upper()][to_currency.upper()]\<close>: \<open>None\<close> is the
  \<open>KeyError\<close> of either subscript.
\<close>

definition lookup_rate :: "string \<Rightarrow> string \<Rightarrow> rat option" where
  "lookup_rate from_currency to_currency =
     (case mock_rates (upper from_currency) of
        None \<Rightarrow> None
      | Some row \<Rightarrow> row (upper to_currency))"

definition mock_currency_conversion :: "'f float_ops \<Rightarrow> string \<Rightarrow> string \<Rightarrow> 'f \<Rightarrow> 'f" where
  "mock_currency_conversion ops from_currency to_currency amount =
     (if from_currency = to_currency then amount
      else
        (case lookup_rate from_currency to_currency of
           Some rate \<Rightarrow> round_mul ops amount rate
         | None \<Rightarrow> amount))"

subsection \<open>The approval flow\<close>

definition process_next_approval_step :: "'f state \<Rightarrow> string \<Rightarrow> 'f state \<times> bool \<times> string" where
  "process_next_approval_step s expense_id =
     (case map_of (EXPENSES s) expense_id of
        None \<Rightarrow> (s, False, ''Expense not found.'')
      | Some expense \<Rightarrow>
          let flow = LISTS s (e_approval_flow expense);
              current_index = e_current_approver_index expense in
          if current_index + 1 < length flow
          then
            (let expense1 = expense\<lparr>e_current_approver_index := e_current_approver_index expense + 1\<rparr>;
                 next_approver_step = flow ! e_current_approver_index expense1;
                 expense2 = expense1\<lparr>e_status := ''Pending ('' @ s_step_name next_approver_step @ '')''\<rparr>
             in (s\<lparr>EXPENSES := AList.update expense_id expense2 (EXPENSES s)\<rparr>,
                 True, ''Moved to next step: '' @ s_step_name next_approver_step))
          else
            (s\<lparr>EXPENSES := AList.update expense_id (expense\<lparr>e_status := ''Approved''\<rparr>) (EXPENSES s)\<rparr>,
             True, ''Expense fully approved.''))"

text \<open>
  The two decision routes. \<open>comment\<close> is the \<open>comment\<close> key of the request body
  (\<open>None\<close> when the key is absent) and \<open>now\<close> is \<open>datetime.now().isoformat()\<close>. A
  successful call returns the \<open>message\<close> and the \<open>new_status\<close> of its JSON body.
  \<open>expense\<close> is a reference to the dictionary in \<open>EXPENSES\<close>: every write through it
  is a write to the store, and \<open>expense['status']\<close> after
  \<open>process_next_approval_step\<close> is read from the store again.
\<close>

definition approve_expense ::
  "'f state \<Rightarrow> string \<Rightarrow> string option \<Rightarrow> string \<Rightarrow> 'f state \<times> (error + string \<times> string)" where
  "approve_expense s expense_id comment now =
     (case require_role [''Manager'', ''Admin'', ''Finance''] s of
        Some denied \<Rightarrow> (s, Inl denied)
      | None \<Rightarrow>
          let user_id = get_current_user_id s;
              comment1 = (case comment of None \<Rightarrow> ''Approved.'' | Some c \<Rightarrow> c) in
          (case map_of (EXPENSES s) expense_id of
             None \<Rightarrow> (s, Inl (HTTP 404 (Some ''Expense not found.'')))
           | Some expense \<Rightarrow>
               (case check_can_approve s user_id expense of
                  (False, reason) \<Rightarrow> (s, Inl (HTTP 403 reason))
                | (True, reason) \<Rightarrow>
                    let flow = LISTS s (e_approval_flow expense) in
                    if e_current_approver_index expense < length flow
                    then
                      (let current_step_name = s_step_name (flow ! e_current_approver_index expense);
                           expense1 = expense\<lparr>e_history := e_history expense @
                             [\<lparr>h_timestamp = now, h_action = ''Approved'', h_step = current_step_name,
                               h_approver_id = user_id, h_comment = comment1\<rparr>]\<rparr>;
                           s1 = s\<lparr>EXPENSES := AList.update expense_id expense1 (EXPENSES s)\<rparr>;
                           (s2, success, message) = process_next_approval_step s1 expense_id
                       in (s2, Inr (''Expense '' @ expense_id @ '' approved at '' @ [CHR 0x27] @
                                      current_step_name @ [CHR 0x27] @ ''. '' @ message,
                                    (case map_of (EXPENSES s2) expense_id of
                                       None \<Rightarrow> e_status expense1 | Some e \<Rightarrow> e_status e))))
                    else (s, Inl IndexError))))"

definition reject_expense ::
  "'f state \<Rightarrow> string \<Rightarrow> string option \<Rightarrow> string \<Rightarrow> 'f state \<times> (error + string \<times> string)" where
  "reject_expense s expense_id comment now =
     (case require_role [''Manager'', ''Admin'', ''Finance''] s of
        Some denied \<Rightarrow> (s, Inl denied)
      | None \<Rightarrow>
          let user_id = get_current_user_id s;
              comment1 = (case comment of None \<Rightarrow> ''Rejected.'' | Some c \<Rightarrow> c) in
          (case map_of (EXPENSES s) expense_id of
             None \<Rightarrow> (s, Inl (HTTP 404 (Some ''Expense not found.'')))
           | Some expense \<Rightarrow>
               (case check_can_approve s user_id expense of
                  (False, reason) \<Rightarrow> (s, Inl (HTTP 403 reason))
                | (True, reason) \<Rightarrow>
                    let flow = LISTS s (e_approval_flow expense) in
                    if e_current_approver_index expense < length flow
                    then
                      (let current_step_name = s_step_name (flow ! e_current_approver_index expense);
                           expense1 = expense\<lparr>e_status := ''Rejected''\<rparr>;
                           expense2 = expense1\<lparr>e_history := e_history expense1 @
                             [\<lparr>h_timestamp = now, h_action = ''Rejected'', h_step = current_step_name,
                               h_approver_id = user_id, h_comment = comment1\<rparr>]\<rparr>
                       in (s\<lparr>EXPENSES := AList.update expense_id expense2 (EXPENSES s)\<rparr>,
                           Inr (''Expense '' @ expense_id @ '' rejected at '' @ [CHR 0x27] @
                                  current_step_name @ [CHR 0x27] @ ''. Status finalized.'',
                                e_status expense2)))
                    else (s, Inl IndexError))))"

subsection \<open>The pending list\<close>

text \<open>
  The body of the loop of \<open>view_pending_expenses\<close> over \<open>EXPENSES.values()\<close>;
  \<open>pending_list\<close> is the list built so far.
\<close>

fun pending_loop ::
  "'f state \<Rightarrow> string \<Rightarrow> string option \<Rightarrow> string \<Rightarrow> 'f expense list \<Rightarrow> 'f expense list \<Rightarrow> 'f expense list" where
  "pending_loop s user_id user_role company_id [] pending_list = pending_list"
| "pending_loop s user_id user_role company_id (expense # rest) pending_list =
     (if e_company_id expense \<noteq> company_id \<or> e_status expense \<in> set [''Approved'', ''Rejected'']
      then pending_loop s user_id user_role company_id rest pending_list
      else
        let current_index = e_current_approver_index expense;
            flow = LISTS s (e_approval_flow expense) in
        if current_index < length flow
        then
          (let required_role = s_role (flow ! current_index) in
           if user_role = Some ''Admin''
           then pending_loop s user_id user_role company_id rest (pending_list @ [expense])
           else if user_role = Some required_role
           then
             (if required_role = ''Manager''
              then
                (let employee_id = e_user_id expense in
                 if manager_of s employee_id = Some user_id
                 then pending_loop s user_id user_role company_id rest (pending_list @ [expense])
                 else pending_loop s user_id user_role company_id rest pending_list)
              else pending_loop s user_id user_role company_id rest (pending_list @ [expense]))
           else pending_loop s user_id user_role company_id rest pending_list)
        else pending_loop s user_id user_role company_id rest pending_list)"

definition view_pending_expenses :: "'f state \<Rightarrow> error + 'f expense list" where
  "view_pending_expenses s =
     (case require_role [''Manager'', ''Admin'', ''Finance''] s of
        Some denied \<Rightarrow> Inl denied
      | None \<Rightarrow>
          let user_id = get_current_user_id s;
              user_role = get_user_role s user_id in
          (case USERS s user_id of
             None \<Rightarrow> Inl KeyError
           | Some u \<Rightarrow>
               Inr (pending_loop s user_id user_role (u_company_id u) (map snd (EXPENSES s)) [])))"

subsection \<open>Bootstrap, users and submission\<close>

text \<open>
  The three \<open>uuid.uuid4()\<close> strings are arguments. The company's \<open>approval_config\<close> is
  the list \<open>DEFAULT_APPROVAL_FLOW\<close> itself.
\<close>

definition initialize_database :: "string \<Rightarrow> string \<Rightarrow> string \<Rightarrow> 'f state \<Rightarrow> 'f state" where
  "initialize_database company_id manager_id employee_id s =
     (let admin_id = CURRENT_USER_ID s;
          s1 = s\<lparr>COMPANIES := (COMPANIES s)(company_id \<mapsto>
                 \<lparr>c_id = company_id, c_name = ''Acme Global Inc.'', c_default_currency = ''USD'',
                  c_approval_config = DEFAULT_APPROVAL_FLOW_addr\<rparr>)\<rparr>;
          s2 = s1\<lparr>USERS := (USERS s1)(admin_id \<mapsto>
                 \<lparr>u_id = admin_id, u_company_id = company_id, u_name = ''Admin User'',
                  u_role = ''Admin'', u_manager_id = None\<rparr>)\<rparr>;
          s3 = s2\<lparr>USERS := (USERS s2)(manager_id \<mapsto>
                 \<lparr>u_id = manager_id, u_company_id = company_id, u_name = ''Jane Manager'',
                  u_role = ''Manager'', u_manager_id = Some admin_id\<rparr>)\<rparr>;
          s4 = s3\<lparr>USERS := (USERS s3)(employee_id \<mapsto>
                 \<lparr>u_id = employee_id, u_company_id = company_id, u_name = ''Tom Employee'',
                  u_role = ''Employee'', u_manager_id = Some manager_id\<rparr>)\<rparr>
      in s4\<lparr>CURRENT_USER_ID := employee_id\<rparr>)"

text \<open>
  A request body is a JSON object whose values are strings. \<open>new_user_id\<close> and
  \<open>expense_id\<close> below are the \<open>uuid.uuid4()\<close> strings.
\<close>

definition create_user ::
  "'f state \<Rightarrow> (string \<rightharpoonup> string) \<Rightarrow> string \<Rightarrow> 'f state \<times> (error + string \<times> string)" where
  "create_user s data new_user_id =
     (case require_role [''Admin''] s of
        Some denied \<Rightarrow> (s, Inl denied)
      | None \<Rightarrow>
          (case (data ''name'', data ''role'', data ''manager_id'') of
             (Some name, Some role, Some manager_id) \<Rightarrow>
               if role \<notin> set [''Employee'', ''Manager'', ''Finance'']
               then (s, Inl (HTTP 400 (Some ''Invalid role specified.'')))
               else
                 let admin_id = get_current_user_id s in
                 (case USERS s admin_id of
                    None \<Rightarrow> (s, Inl KeyError)
                  | Some admin \<Rightarrow>
                      (s\<lparr>USERS := (USERS s)(new_user_id \<mapsto>
                           \<lparr>u_id = new_user_id, u_company_id = u_company_id admin, u_name = name,
                            u_role = role,
                            u_manager_id = (if manager_id = [] then None else Some manager_id)\<rparr>)\<rparr>,
                       Inr (''User '' @ name @ '' created.'', new_user_id)))
           | _ \<Rightarrow> (s, Inl (HTTP 400 (Some ''Missing required fields: name, role, manager_id'')))))"

record 'f submit_response =
  r_message :: string
  r_expense_id :: string
  r_pending_step :: string
  r_amount_in_company_currency :: "'f \<times> string"

definition submit_expense ::
  "'f float_ops \<Rightarrow> 'f state \<Rightarrow> (string \<rightharpoonup> string) \<Rightarrow> string \<Rightarrow>
   'f state \<times> (error + 'f submit_response)" where
  "submit_expense ops s data expense_id =
     (case require_role [''Employee''] s of
        Some denied \<Rightarrow> (s, Inl denied)
      | None \<Rightarrow>
          let user_id = get_current_user_id s in
          (case (data ''amount'', data ''currency'', data ''category'', data ''description'', data ''date'') of
             (Some amount_field, Some currency, Some category, Some description, Some date) \<Rightarrow>
               (case USERS s user_id of
                  None \<Rightarrow> (s, Inl KeyError)
                | Some u \<Rightarrow>
                    let company_id = u_company_id u in
                    (case COMPANIES s company_id of
                       None \<Rightarrow> (s, Inl KeyError)
                     | Some company \<Rightarrow>
                         (case to_float ops amount_field of
                            None \<Rightarrow> (s, Inl (HTTP 400 (Some ''Invalid amount format.'')))
                          | Some amount \<Rightarrow>
                              let converted_amount =
                                    mock_currency_conversion ops currency (c_default_currency company) amount;
                                  expense =
                                    \<lparr>e_id = expense_id, e_user_id = user_id, e_company_id = company_id,
                                     e_amount = amount, e_currency = currency,
                                     e_converted_amount = converted_amount,
                                     e_company_currency = c_default_currency company,
                                     e_category = category, e_description = description, e_date = date,
                                     e_status = ''Pending (Manager Approval)'',
                                     e_approval_flow = c_approval_config company,
                                     e_current_approver_index = 0, e_history = []\<rparr>;
                                  s1 = s\<lparr>EXPENSES := AList.update expense_id expense (EXPENSES s)\<rparr>
                              in
                              (case LISTS s1 (e_approval_flow expense) of
                                 [] \<Rightarrow> (s1, Inl IndexError)
                               | first_step # _ \<Rightarrow>
                                   (s1, Inr \<lparr>r_message = ''Expense submitted successfully.'',
                                            r_expense_id = expense_id,
                                            r_pending_step = s_step_name first_step,
                                            r_amount_in_company_currency =
                                              (converted_amount, c_default_currency company)\<rparr>)))))
           | _ \<Rightarrow>
               (s, Inl (HTTP 400
                  (Some ''Missing required fields: amount, currency, category, description, date'')))))"


section \<open>Notions used by the statements\<close>

text \<open>A terminal expense: the test \<open>expense['status'] in ["Approved", "Rejected"]\<close>.\<close>

definition terminal :: "'f expense \<Rightarrow> bool" where
  "terminal e = (e_status e \<in> set [''Approved'', ''Rejected''])"

text \<open>
  The program has no login: the acting user is whoever \<open>CURRENT_USER_ID\<close> names, and a
  request by another user is a request in a state where the global names that user.
\<close>

definition acting_as :: "string \<Rightarrow> 'f state \<Rightarrow> 'f state" where
  "acting_as user_id s = s\<lparr>CURRENT_USER_ID := user_id\<rparr>"

text \<open>
  No function of the program changes a company's flow template. Python can change it
  in two ways: in place, through the list object (\<open>company['approval_config'].append(x)\<close>),
  or by binding the key to another list (\<open>company['approval_config'] = other\<close>).
\<close>

definition list_append :: "addr \<Rightarrow> step \<Rightarrow> 'f state \<Rightarrow> 'f state" where
  "list_append a x s = s\<lparr>LISTS := (LISTS s)(a := LISTS s a @ [x])\<rparr>"

definition set_approval_config :: "string \<Rightarrow> addr \<Rightarrow> 'f state \<Rightarrow> 'f state" where
  "set_approval_config company_id a s =
     (case COMPANIES s company_id of
        None \<Rightarrow> s
      | Some company \<Rightarrow>
          s\<lparr>COMPANIES := (COMPANIES s)(company_id \<mapsto> company\<lparr>c_approval_config := a\<rparr>)\<rparr>)"

text \<open>
  The test under which the loop of \<open>view_pending_expenses\<close> appends an expense to the
  list, read off the branches of \<open>pending_loop\<close>.
\<close>

definition listed_for ::
  "'f state \<Rightarrow> string \<Rightarrow> string option \<Rightarrow> string \<Rightarrow> 'f expense \<Rightarrow> bool" where
  "listed_for s user_id user_role company_id e =
     (e_company_id e = company_id \<and> \<not> terminal e \<and>
      e_current_approver_index e < length (LISTS s (e_approval_flow e)) \<and>
      (user_role = Some ''Admin'' \<or>
       (user_role = Some (s_role (LISTS s (e_approval_flow e) ! e_current_approver_index e)) \<and>
        (s_role (LISTS s (e_approval_flow e) ! e_current_approver_index e) = ''Manager'' \<longrightarrow>
           manager_of s (e_user_id e) = Some user_id))))"

section \<open>Concrete runs\<close>

text \<open>
  To run the functions on concrete inputs, the floating point operations are
  instantiated on exact decimals: \<open>float\<close> reads a string of digits, and
  \<open>round(amount * rate, 2)\<close> rounds the exact product to two decimals, half to even.
  On the amounts used below this is what Python computes.
\<close>

definition py_round2 :: "rat \<Rightarrow> rat" where
  "py_round2 x =
     (let y = x * 100; n = \<lfloor>y\<rfloor>; d = y - of_int n in
      of_int (if d < 1 / 2 then n else if 1 / 2 < d then n + 1 else if even n then n else n + 1) / 100)"

definition digit_of :: "char \<Rightarrow> nat option" where
  "digit_of c = map_of (zip ''0123456789'' [0, 1, 2, 3, 4, 5, 6, 7, 8, 9]) c"

fun digits_value :: "nat \<Rightarrow> string \<Rightarrow> nat option" where
  "digits_value acc [] = Some acc"
| "digits_value acc (c # cs) =
     (case digit_of c of None \<Rightarrow> None | Some d \<Rightarrow> digits_value (10 * acc + d) cs)"

definition dec_to_float :: "string \<Rightarrow> rat option" where
  "dec_to_float str = (if str = [] then None else map_option of_nat (digits_value 0 str))"

definition dec_ops :: "rat float_ops" where
  "dec_ops = \<lparr>to_float = dec_to_float, round_mul = (\<lambda>amount rate. py_round2 (amount * rate))\<rparr>"

text \<open>The seeded database, and the scenario of the employee's trip.\<close>

definition seeded :: "rat state" where
  "seeded = initialize_database ''company-1'' ''manager-1'' ''employee-1'' module_state"

definition trip_request :: "string \<rightharpoonup> string" where
  "trip_request =
     map_of [(''amount'', ''100''), (''currency'', ''EUR''), (''category'', ''Travel''),
             (''description'', ''Trip''), (''date'', ''2024-01-01'')]"

definition trip_expense :: "rat expense" where
  "trip_expense =
     \<lparr>e_id = ''expense-1'', e_user_id = ''employee-1'', e_company_id = ''company-1'',
      e_amount = 100, e_currency = ''EUR'', e_converted_amount = 108, e_company_currency = ''USD'',
      e_category = ''Travel'', e_description = ''Trip'', e_date = ''2024-01-01'',
      e_status = ''Pending (Manager Approval)'', e_approval_flow = DEFAULT_APPROVAL_FLOW_addr,
      e_current_approver_index = 0, e_history = []\<rparr>"

definition submitted :: "rat state" where
  "submitted = fst (submit_expense dec_ops seeded trip_request ''expense-1'')"

definition director :: "rat state" where
  "director = acting_as ''admin-user-123'' submitted"

definition after_first_approval :: "rat state" where
  "after_first_approval = fst (approve_expense director ''expense-1'' None ''t1'')"

definition at_last_step :: "rat state" where
  "at_last_step = fst (approve_expense after_first_approval ''expense-1'' None ''t2'')"

definition rejected_by_director :: "rat state" where
  "rejected_by_director = fst (reject_expense director ''expense-1'' None ''t1'')"

text \<open>A Finance user of another company, added to the state after the first approval.\<close>

definition with_outsider :: "rat state" where
  "with_outsider =
     after_first_approval\<lparr>USERS := (USERS after_first_approval)(''finance-9'' \<mapsto>
       \<lparr>u_id = ''finance-9'', u_company_id = ''company-9'', u_name = ''Fay Finance'',
        u_role = ''Finance'', u_manager_id = None\<rparr>)\<rparr>"

section \<open>The states of the program\<close>

text \<open>
  The states the program can be in: the module as loaded, and what the bootstrap and the
  four writing handlers make of a state, for whatever arguments and whoever the acting user
  is. The reading handlers return no state.
\<close>

inductive reachable :: "'f state \<Rightarrow> bool" where
  loaded: "reachable module_state"
| bootstrap: "reachable s \<Longrightarrow> reachable (initialize_database company_id manager_id employee_id s)"
| request_as: "reachable s \<Longrightarrow> reachable (acting_as user_id s)"
| user_created: "reachable s \<Longrightarrow> reachable (fst (create_user s data new_user_id))"
| expense_submitted: "reachable s \<Longrightarrow> reachable (fst (submit_expense ops s data expense_id))"
| approved: "reachable s \<Longrightarrow> reachable (fst (approve_expense s expense_id comment now))"
| rejected: "reachable s \<Longrightarrow> reachable (fst (reject_expense s expense_id comment now))"

text \<open>
  What these states have in common: the only list of steps in use is
  \<open>DEFAULT_APPROVAL_FLOW\<close>, with its contents as in the source, and the index of every
  expense is inside it.
\<close>

definition flows_default :: "'f state \<Rightarrow> bool" where
  "flows_default s =
     (LISTS s DEFAULT_APPROVAL_FLOW_addr = DEFAULT_APPROVAL_FLOW \<and>
      (\<forall>company_id company. COMPANIES s company_id = Some company \<longrightarrow>
         c_approval_config company = DEFAULT_APPROVAL_FLOW_addr) \<and>
      (\<forall>e \<in> snd ` set (EXPENSES s).
         e_approval_flow e = DEFAULT_APPROVAL_FLOW_addr \<and>
         e_current_approver_index e < length DEFAULT_APPROVAL_FLOW))"

section \<open>Lemmas about the handlers\<close>

lemma require_role_gate:
  "(require_role [''Manager'', ''Admin'', ''Finance''] s = None) =
     (CURRENT_USER_ID s \<noteq> [] \<and>
      get_user_role s (CURRENT_USER_ID s) \<in> {Some ''Manager'', Some ''Admin'', Some ''Finance''})"
  by (auto simp: require_role_def get_current_user_id_def Let_def)

lemma terminal_denied:
  "terminal e \<Longrightarrow>
   check_can_approve s user_id e = (False, Some ''This expense is already finalized.'')"
  by (simp add: check_can_approve_def terminal_def)

lemma allowed_not_terminal:
  "check_can_approve s user_id e = (True, r) \<Longrightarrow> \<not> terminal e \<and> r = None"
  by (auto simp: check_can_approve_def terminal_def Let_def split: if_splits)

lemma approve_expense_failure:
  "approve_expense s eid c now = (s', Inl err) \<Longrightarrow> s' = s"
  by (auto simp: approve_expense_def Let_def split: option.splits prod.splits bool.splits if_splits)

lemma reject_expense_failure:
  "reject_expense s eid c now = (s', Inl err) \<Longrightarrow> s' = s"
  by (auto simp: reject_expense_def Let_def split: option.splits prod.splits bool.splits if_splits)

lemma approve_expense_success_pre:
  assumes "approve_expense s eid c now = (s', Inr r)"
  shows "\<exists>e. require_role [''Manager'', ''Admin'', ''Finance''] s = None \<and>
             map_of (EXPENSES s) eid = Some e \<and>
             check_can_approve s (CURRENT_USER_ID s) e = (True, None) \<and>
             e_current_approver_index e < length (LISTS s (e_approval_flow e))"
  using assms
  apply (auto simp: approve_expense_def Let_def get_current_user_id_def
              split: option.splits prod.splits bool.splits if_splits)
  apply (auto dest: allowed_not_terminal)
  done

lemma reject_expense_success_pre:
  assumes "reject_expense s eid c now = (s', Inr r)"
  shows "\<exists>e. require_role [''Manager'', ''Admin'', ''Finance''] s = None \<and>
             map_of (EXPENSES s) eid = Some e \<and>
             check_can_approve s (CURRENT_USER_ID s) e = (True, None) \<and>
             e_current_approver_index e < length (LISTS s (e_approval_flow e))"
  using assms
  apply (auto simp: reject_expense_def Let_def get_current_user_id_def
              split: option.splits prod.splits bool.splits if_splits)
  apply (auto dest: allowed_not_terminal)
  done

lemma process_next_approval_step_eval:
  assumes "map_of (EXPENSES s) eid = Some e"
  shows "process_next_approval_step s eid =
    (if e_current_approver_index e + 1 < length (LISTS s (e_approval_flow e))
     then (s\<lparr>EXPENSES := AList.update eid
              (e\<lparr>e_current_approver_index := e_current_approver_index e + 1,
                 e_status := ''Pending ('' @
                   s_step_name (LISTS s (e_approval_flow e) ! (e_current_approver_index e + 1)) @ '')''\<rparr>)
              (EXPENSES s)\<rparr>,
           True,
           ''Moved to next step: '' @
             s_step_name (LISTS s (e_approval_flow e) ! (e_current_approver_index e + 1)))
     else (s\<lparr>EXPENSES := AList.update eid (e\<lparr>e_status := ''Approved''\<rparr>) (EXPENSES s)\<rparr>,
           True, ''Expense fully approved.''))"
  using assms by (simp add: process_next_approval_step_def Let_def)

text \<open>The expense a successful approval, and a successful rejection, writes back.\<close>

lemma approve_expense_eval:
  assumes "require_role [''Manager'', ''Admin'', ''Finance''] s = None"
    and "map_of (EXPENSES s) eid = Some e"
    and "check_can_approve s (CURRENT_USER_ID s) e = (True, rr)"
    and "e_current_approver_index e < length (LISTS s (e_approval_flow e))"
  shows "fst (approve_expense s eid c now) =
     s\<lparr>EXPENSES := AList.update eid
        (if e_current_approver_index e + 1 < length (LISTS s (e_approval_flow e))
         then e\<lparr>e_history := e_history e @
                  [\<lparr>h_timestamp = now, h_action = ''Approved'',
                    h_step = s_step_name (LISTS s (e_approval_flow e) ! e_current_approver_index e),
                    h_approver_id = CURRENT_USER_ID s,
                    h_comment = (case c of None \<Rightarrow> ''Approved.'' | Some x \<Rightarrow> x)\<rparr>],
                e_current_approver_index := e_current_approver_index e + 1,
                e_status := ''Pending ('' @
                  s_step_name (LISTS s (e_approval_flow e) ! (e_current_approver_index e + 1)) @ '')''\<rparr>
         else e\<lparr>e_history := e_history e @
                  [\<lparr>h_timestamp = now, h_action = ''Approved'',
                    h_step = s_step_name (LISTS s (e_approval_flow e) ! e_current_approver_index e),
                    h_approver_id = CURRENT_USER_ID s,
                    h_comment = (case c of None \<Rightarrow> ''Approved.'' | Some x \<Rightarrow> x)\<rparr>],
                e_status := ''Approved''\<rparr>)
        (EXPENSES s)\<rparr>"
    and "\<exists>r. snd (approve_expense s eid c now) = Inr r"
  using assms
  by (simp_all add: approve_expense_def Let_def get_current_user_id_def
        process_next_approval_step_def AList.update_conv' split: prod.splits)

lemma reject_expense_eval:
  assumes "require_role [''Manager'', ''Admin'', ''Finance''] s = None"
    and "map_of (EXPENSES s) eid = Some e"
    and "check_can_approve s (CURRENT_USER_ID s) e = (True, rr)"
    and "e_current_approver_index e < length (LISTS s (e_approval_flow e))"
  shows "reject_expense s eid c now =
     (s\<lparr>EXPENSES := AList.update eid
        (e\<lparr>e_status := ''Rejected'', e_history := e_history e @
                  [\<lparr>h_timestamp = now, h_action = ''Rejected'',
                    h_step = s_step_name (LISTS s (e_approval_flow e) ! e_current_approver_index e),
                    h_approver_id = CURRENT_USER_ID s,
                    h_comment = (case c of None \<Rightarrow> ''Rejected.'' | Some x \<Rightarrow> x)\<rparr>]\<rparr>)
        (EXPENSES s)\<rparr>,
      Inr (''Expense '' @ eid @ '' rejected at '' @ [CHR 0x27] @
             s_step_name (LISTS s (e_approval_flow e) ! e_current_approver_index e) @
             [CHR 0x27] @ ''. Status finalized.'',
           ''Rejected''))"
  using assms
  by (simp add: reject_expense_def Let_def get_current_user_id_def)

lemma approve_expense_terminal:
  assumes "map_of (EXPENSES s) eid = Some e" and "terminal e"
  shows "fst (approve_expense s eid c now) = s" and "isl (snd (approve_expense s eid c now))"
  using assms
  by (simp_all add: approve_expense_def terminal_denied Let_def split: option.splits)

lemma reject_expense_terminal:
  assumes "map_of (EXPENSES s) eid = Some e" and "terminal e"
  shows "fst (reject_expense s eid c now) = s" and "isl (snd (reject_expense s eid c now))"
  using assms
  by (simp_all add: reject_expense_def terminal_denied Let_def split: option.splits)

text \<open>A call on one expense leaves every other expense as it is.\<close>

lemma approve_expense_other:
  "x \<noteq> eid \<Longrightarrow> map_of (EXPENSES (fst (approve_expense s eid c now))) x = map_of (EXPENSES s) x"
  by (auto simp: approve_expense_def process_next_approval_step_def Let_def AList.update_conv'
           split: option.splits prod.splits bool.splits if_splits)

lemma reject_expense_other:
  "x \<noteq> eid \<Longrightarrow> map_of (EXPENSES (fst (reject_expense s eid c now))) x = map_of (EXPENSES s) x"
  by (auto simp: reject_expense_def Let_def AList.update_conv'
           split: option.splits prod.splits bool.splits if_splits)

text \<open>No handler writes to a list of steps.\<close>

lemma approve_expense_LISTS: "LISTS (fst (approve_expense s eid c now)) = LISTS s"
  by (auto simp: approve_expense_def process_next_approval_step_def Let_def AList.update_conv'
           split: option.splits prod.splits bool.splits if_splits)

lemma reject_expense_LISTS: "LISTS (fst (reject_expense s eid c now)) = LISTS s"
  by (auto simp: reject_expense_def Let_def split: option.splits prod.splits bool.splits if_splits)

lemma create_user_LISTS: "LISTS (fst (create_user s data new_user_id)) = LISTS s"
  by (auto simp: create_user_def Let_def split: option.splits prod.splits if_splits)

lemma submit_expense_LISTS: "LISTS (fst (submit_expense ops s data expense_id)) = LISTS s"
  by (auto simp: submit_expense_def Let_def split: option.splits prod.splits list.splits if_splits)

text \<open>The other two writing handlers and the expenses already stored.\<close>

lemma create_user_EXPENSES: "EXPENSES (fst (create_user s data new_user_id)) = EXPENSES s"
  by (auto simp: create_user_def Let_def split: option.splits prod.splits if_splits)

lemma submit_expense_other:
  "x \<noteq> expense_id \<Longrightarrow>
   map_of (EXPENSES (fst (submit_expense ops s data expense_id))) x = map_of (EXPENSES s) x"
  by (auto simp: submit_expense_def Let_def AList.update_conv'
           split: option.splits prod.splits list.splits if_splits)


section \<open>The concrete runs, evaluated\<close>

lemma to_float_100: "to_float dec_ops ''100'' = Some 100"
  by (simp add: dec_ops_def dec_to_float_def digit_of_def)

lemma eur_to_usd: "mock_currency_conversion dec_ops ''EUR'' ''USD'' 100 = 108"
  by (simp add: mock_currency_conversion_def lookup_rate_def mock_rates_def upper_def
        upper_char_def dec_ops_def py_round2_def Let_def)

lemma seeded_fields:
  "CURRENT_USER_ID seeded = ''employee-1''"
  "EXPENSES seeded = []"
  "LISTS seeded DEFAULT_APPROVAL_FLOW_addr = DEFAULT_APPROVAL_FLOW"
  "COMPANIES seeded ''company-1'' = Some \<lparr>c_id = ''company-1'', c_name = ''Acme Global Inc.'',
     c_default_currency = ''USD'', c_approval_config = DEFAULT_APPROVAL_FLOW_addr\<rparr>"
  "USERS seeded ''admin-user-123'' = Some \<lparr>u_id = ''admin-user-123'', u_company_id = ''company-1'',
     u_name = ''Admin User'', u_role = ''Admin'', u_manager_id = None\<rparr>"
  "USERS seeded ''manager-1'' = Some \<lparr>u_id = ''manager-1'', u_company_id = ''company-1'',
     u_name = ''Jane Manager'', u_role = ''Manager'', u_manager_id = Some ''admin-user-123''\<rparr>"
  "USERS seeded ''employee-1'' = Some \<lparr>u_id = ''employee-1'', u_company_id = ''company-1'',
     u_name = ''Tom Employee'', u_role = ''Employee'', u_manager_id = Some ''manager-1''\<rparr>"
  by (simp_all add: seeded_def initialize_database_def module_state_def Let_def)

lemma submit_trip:
  "submit_expense dec_ops seeded trip_request ''expense-1'' =
     (seeded\<lparr>EXPENSES := [(''expense-1'', trip_expense)]\<rparr>,
      Inr \<lparr>r_message = ''Expense submitted successfully.'', r_expense_id = ''expense-1'',
           r_pending_step = ''Manager Approval'', r_amount_in_company_currency = (108, ''USD'')\<rparr>)"
  by (simp add: submit_expense_def require_role_def get_current_user_id_def get_user_role_def
        seeded_fields trip_request_def to_float_100 eur_to_usd DEFAULT_APPROVAL_FLOW_def
        trip_expense_def Let_def)

lemma submitted_eq: "submitted = seeded\<lparr>EXPENSES := [(''expense-1'', trip_expense)]\<rparr>"
  by (simp add: submitted_def submit_trip)

lemma director_fields:
  "CURRENT_USER_ID director = ''admin-user-123''"
  "EXPENSES director = [(''expense-1'', trip_expense)]"
  "LISTS director = LISTS seeded"
  "USERS director = USERS seeded"
  "COMPANIES director = COMPANIES seeded"
  by (simp_all add: director_def acting_as_def submitted_eq)

lemma admin_gate:
  "CURRENT_USER_ID s = ''admin-user-123'' \<Longrightarrow> USERS s = USERS seeded \<Longrightarrow>
   require_role [''Manager'', ''Admin'', ''Finance''] s = None"
  by (simp add: require_role_def get_current_user_id_def get_user_role_def seeded_fields)

lemma admin_can:
  "USERS s = USERS seeded \<Longrightarrow> e_status e \<noteq> ''Approved'' \<Longrightarrow> e_status e \<noteq> ''Rejected'' \<Longrightarrow>
   check_can_approve s ''admin-user-123'' e = (True, None)"
  by (simp add: check_can_approve_def get_user_role_def seeded_fields)

lemma after_first_approval_eq:
  "after_first_approval = director\<lparr>EXPENSES := [(''expense-1'',
      trip_expense\<lparr>e_history := [\<lparr>h_timestamp = ''t1'', h_action = ''Approved'',
          h_step = ''Manager Approval'', h_approver_id = ''admin-user-123'',
          h_comment = ''Approved.''\<rparr>],
        e_current_approver_index := 1, e_status := ''Pending (Finance Review)''\<rparr>)]\<rparr>"
  unfolding after_first_approval_def
  by (simp add: approve_expense_def admin_gate admin_can director_fields get_current_user_id_def
        trip_expense_def seeded_fields DEFAULT_APPROVAL_FLOW_def process_next_approval_step_def Let_def)

lemma at_last_step_eq:
  "at_last_step = director\<lparr>EXPENSES := [(''expense-1'',
      trip_expense\<lparr>e_history :=
         [\<lparr>h_timestamp = ''t1'', h_action = ''Approved'', h_step = ''Manager Approval'',
           h_approver_id = ''admin-user-123'', h_comment = ''Approved.''\<rparr>,
          \<lparr>h_timestamp = ''t2'', h_action = ''Approved'', h_step = ''Finance Review'',
           h_approver_id = ''admin-user-123'', h_comment = ''Approved.''\<rparr>],
        e_current_approver_index := 2, e_status := ''Pending (Director Sign-off)''\<rparr>)]\<rparr>"
  unfolding at_last_step_def after_first_approval_eq
  by (simp add: approve_expense_def admin_gate admin_can director_fields get_current_user_id_def
        trip_expense_def seeded_fields DEFAULT_APPROVAL_FLOW_def process_next_approval_step_def Let_def)

lemma last_approval:
  "approve_expense at_last_step ''expense-1'' None ''t3'' =
     (director\<lparr>EXPENSES := [(''expense-1'',
        trip_expense\<lparr>e_history :=
           [\<lparr>h_timestamp = ''t1'', h_action = ''Approved'', h_step = ''Manager Approval'',
             h_approver_id = ''admin-user-123'', h_comment = ''Approved.''\<rparr>,
            \<lparr>h_timestamp = ''t2'', h_action = ''Approved'', h_step = ''Finance Review'',
             h_approver_id = ''admin-user-123'', h_comment = ''Approved.''\<rparr>,
            \<lparr>h_timestamp = ''t3'', h_action = ''Approved'', h_step = ''Director Sign-off'',
             h_approver_id = ''admin-user-123'', h_comment = ''Approved.''\<rparr>],
          e_current_approver_index := 2, e_status := ''Approved''\<rparr>)]\<rparr>,
      Inr (''Expense expense-1 approved at '' @ [CHR 0x27] @ ''Director Sign-off'' @ [CHR 0x27] @
             ''. Expense fully approved.'', ''Approved''))"
  unfolding at_last_step_eq
  by (simp add: approve_expense_def admin_gate admin_can director_fields get_current_user_id_def
        trip_expense_def seeded_fields DEFAULT_APPROVAL_FLOW_def process_next_approval_step_def Let_def)

lemma rejected_by_director_eq:
  "rejected_by_director = director\<lparr>EXPENSES := [(''expense-1'',
      trip_expense\<lparr>e_status := ''Rejected'',
        e_history := [\<lparr>h_timestamp = ''t1'', h_action = ''Rejected'', h_step = ''Manager Approval'',
          h_approver_id = ''admin-user-123'', h_comment = ''Rejected.''\<rparr>]\<rparr>)]\<rparr>"
  unfolding rejected_by_director_def
  by (simp add: reject_expense_def admin_gate admin_can director_fields get_current_user_id_def
        trip_expense_def seeded_fields DEFAULT_APPROVAL_FLOW_def Let_def)

section \<open>Authorization: \<open>check_can_approve\<close>\<close>

lemma acting_as_fields:
  "USERS (acting_as u s) = USERS s"
  "COMPANIES (acting_as u s) = COMPANIES s"
  "EXPENSES (acting_as u s) = EXPENSES s"
  "LISTS (acting_as u s) = LISTS s"
  "CURRENT_USER_ID (acting_as u s) = u"
  by (simp_all add: acting_as_def)

lemma check_can_approve_acting_as:
  "check_can_approve (acting_as u s) user_id e = check_can_approve s user_id e"
  by (auto simp: check_can_approve_def get_user_role_def manager_of_def acting_as_fields Let_def)

lemma submitted_fields:
  "CURRENT_USER_ID submitted = ''employee-1''"
  "EXPENSES submitted = [(''expense-1'', trip_expense)]"
  "LISTS submitted = LISTS seeded"
  "USERS submitted = USERS seeded"
  "COMPANIES submitted = COMPANIES seeded"
  by (simp_all add: submitted_eq seeded_fields)

text \<open>
  C4. A pending expense stands at index 0 and the step there asks for the role Manager.
  A user whose role is Manager is authorized exactly when the owner's \<open>manager_id\<close> is
  that user. A Manager who is not the owner's manager is refused with the reason
  "You are not the assigned manager for this employee.", which is not the reason a user of
  the wrong role gets.
\<close>

theorem C4_manager_step_direct_manager_only:
  assumes "\<not> terminal e"
    and "e_current_approver_index e = 0"
    and "0 < length (LISTS s (e_approval_flow e))"
    and "s_role (LISTS s (e_approval_flow e) ! 0) = ''Manager''"
    and "get_user_role s user_id = Some ''Manager''"
  shows "((check_can_approve s user_id e = (True, None)) =
            (\<exists>owner. USERS s (e_user_id e) = Some owner \<and> u_manager_id owner = Some user_id)) \<and>
         ((\<nexists>owner. USERS s (e_user_id e) = Some owner \<and> u_manager_id owner = Some user_id) \<longrightarrow>
            check_can_approve s user_id e =
              (False, Some ''You are not the assigned manager for this employee.'')) \<and>
         (get_user_role s other \<notin> {Some ''Manager'', Some ''Admin''} \<longrightarrow>
            check_can_approve s other e =
              (False, Some ''You do not have the required role/authority for the current approval step.'') \<and>
            snd (check_can_approve s other e) \<noteq>
              Some ''You are not the assigned manager for this employee.'')"
  using assms
  by (auto simp: check_can_approve_def terminal_def manager_of_def Let_def split: option.splits)

theorem C4_witness:
  "\<not> terminal trip_expense \<and>
   e_current_approver_index trip_expense = 0 \<and>
   0 < length (LISTS submitted (e_approval_flow trip_expense)) \<and>
   s_role (LISTS submitted (e_approval_flow trip_expense) ! 0) = ''Manager'' \<and>
   get_user_role submitted ''manager-1'' = Some ''Manager'' \<and>
   check_can_approve submitted ''manager-1'' trip_expense = (True, None) \<and>
   check_can_approve submitted ''employee-1'' trip_expense =
     (False, Some ''You do not have the required role/authority for the current approval step.'')"
proof -
  have h1: "\<not> terminal trip_expense"
    by (simp add: terminal_def trip_expense_def)
  have h2: "e_current_approver_index trip_expense = 0"
    by (simp add: trip_expense_def)
  have flow: "LISTS submitted (e_approval_flow trip_expense) = DEFAULT_APPROVAL_FLOW"
    by (simp add: submitted_fields seeded_fields trip_expense_def)
  have h3: "0 < length (LISTS submitted (e_approval_flow trip_expense))"
    by (simp add: flow DEFAULT_APPROVAL_FLOW_def)
  have h4: "s_role (LISTS submitted (e_approval_flow trip_expense) ! 0) = ''Manager''"
    by (simp add: flow DEFAULT_APPROVAL_FLOW_def)
  have h5: "get_user_role submitted ''manager-1'' = Some ''Manager''"
    by (simp add: get_user_role_def submitted_fields seeded_fields)
  have owner: "\<exists>owner. USERS submitted (e_user_id trip_expense) = Some owner \<and>
                 u_manager_id owner = Some ''manager-1''"
    by (simp add: submitted_fields seeded_fields trip_expense_def)
  have other: "get_user_role submitted ''employee-1'' \<notin> {Some ''Manager'', Some ''Admin''}"
    by (simp add: get_user_role_def submitted_fields seeded_fields)
  from C4_manager_step_direct_manager_only [OF h1 h2 h3 h4 h5, of "''employee-1''"] owner other
  have "check_can_approve submitted ''manager-1'' trip_expense = (True, None)"
    and "check_can_approve submitted ''employee-1'' trip_expense =
       (False, Some ''You do not have the required role/authority for the current approval step.'')"
    by blast+
  with h1 h2 h3 h4 h5 show ?thesis by blast
qed

text \<open>
  C5. On an expense that is not terminal, a user whose role is Admin is authorized
  whatever the index, the step's role and the owner's manager are. Acting as that user,
  both the approve and the reject route succeed on an expense whose index is inside its
  flow.
\<close>

theorem C5_admin_override:
  assumes "\<not> terminal e"
    and "get_user_role s user_id = Some ''Admin''"
  shows "check_can_approve s user_id e = (True, None) \<and>
         (user_id \<noteq> [] \<and> map_of (EXPENSES s) eid = Some e \<and>
          e_current_approver_index e < length (LISTS s (e_approval_flow e)) \<longrightarrow>
            \<not> isl (snd (approve_expense (acting_as user_id s) eid c now)) \<and>
            \<not> isl (snd (reject_expense (acting_as user_id s) eid c now)))"
proof -
  have can: "check_can_approve s user_id e = (True, None)"
    using assms by (simp add: check_can_approve_def terminal_def)
  have run: "\<not> isl (snd (approve_expense (acting_as user_id s) eid c now)) \<and>
             \<not> isl (snd (reject_expense (acting_as user_id s) eid c now))"
    if "user_id \<noteq> []" and "map_of (EXPENSES s) eid = Some e"
      and "e_current_approver_index e < length (LISTS s (e_approval_flow e))"
  proof -
    let ?s = "acting_as user_id s"
    have gate: "require_role [''Manager'', ''Admin'', ''Finance''] ?s = None"
      using that(1) assms(2)
      by (simp add: require_role_gate acting_as_fields get_user_role_def)
    have look: "map_of (EXPENSES ?s) eid = Some e"
      using that(2) by (simp add: acting_as_fields)
    have can': "check_can_approve ?s (CURRENT_USER_ID ?s) e = (True, None)"
      using can by (simp add: check_can_approve_acting_as acting_as_fields)
    have idx: "e_current_approver_index e < length (LISTS ?s (e_approval_flow e))"
      using that(3) by (simp add: acting_as_fields)
    from approve_expense_eval(2) [OF gate look can' idx, of c now]
    have a: "\<not> isl (snd (approve_expense ?s eid c now))" by auto
    from reject_expense_eval [OF gate look can' idx, of c now]
    have r: "\<not> isl (snd (reject_expense ?s eid c now))" by simp
    from a r show ?thesis by simp
  qed
  from can run show ?thesis by blast
qed

theorem C5_witness:
  "\<not> terminal trip_expense \<and>
   get_user_role submitted ''admin-user-123'' = Some ''Admin'' \<and>
   ''admin-user-123'' \<noteq> [] \<and>
   map_of (EXPENSES submitted) ''expense-1'' = Some trip_expense \<and>
   e_current_approver_index trip_expense < length (LISTS submitted (e_approval_flow trip_expense)) \<and>
   check_can_approve submitted ''admin-user-123'' trip_expense = (True, None) \<and>
   \<not> isl (snd (approve_expense (acting_as ''admin-user-123'' submitted) ''expense-1'' None ''t1'')) \<and>
   \<not> isl (snd (reject_expense (acting_as ''admin-user-123'' submitted) ''expense-1'' None ''t1''))"
proof -
  have h1: "\<not> terminal trip_expense"
    by (simp add: terminal_def trip_expense_def)
  have h2: "get_user_role submitted ''admin-user-123'' = Some ''Admin''"
    by (simp add: get_user_role_def submitted_fields seeded_fields)
  have h3: "map_of (EXPENSES submitted) ''expense-1'' = Some trip_expense"
    by (simp add: submitted_fields)
  have h4: "e_current_approver_index trip_expense <
              length (LISTS submitted (e_approval_flow trip_expense))"
    by (simp add: submitted_fields seeded_fields trip_expense_def DEFAULT_APPROVAL_FLOW_def)
  from C5_admin_override [OF h1 h2, of "''expense-1''" None "''t1''"] h1 h2 h3 h4
  show ?thesis by simp
qed

text \<open>
  C10. The check never looks at a company. On an expense that is not terminal, a user is
  authorized exactly when the role is Admin, or the index is inside the flow and the role
  is the one the step asks for (and, for a Manager step at index 0, the user is the owner's
  manager): no company occurs in the condition. Changing the company of the acting user
  and the company of the expense leaves the answer as it is.
\<close>

theorem C10_company_never_compared:
  assumes "\<not> terminal e"
  shows "((check_can_approve s user_id e = (True, None)) =
            (get_user_role s user_id = Some ''Admin'' \<or>
             (e_current_approver_index e < length (LISTS s (e_approval_flow e)) \<and>
              get_user_role s user_id =
                Some (s_role (LISTS s (e_approval_flow e) ! e_current_approver_index e)) \<and>
              (e_current_approver_index e = 0 \<and>
               s_role (LISTS s (e_approval_flow e) ! e_current_approver_index e) = ''Manager'' \<longrightarrow>
                 manager_of s (e_user_id e) = Some user_id)))) \<and>
         (USERS s user_id = Some u \<longrightarrow>
            check_can_approve (s\<lparr>USERS := (USERS s)(user_id \<mapsto> u\<lparr>u_company_id := c\<rparr>)\<rparr>) user_id
              (e\<lparr>e_company_id := c'\<rparr>) = check_can_approve s user_id e)"
proof -
  have first: "(check_can_approve s user_id e = (True, None)) =
            (get_user_role s user_id = Some ''Admin'' \<or>
             (e_current_approver_index e < length (LISTS s (e_approval_flow e)) \<and>
              get_user_role s user_id =
                Some (s_role (LISTS s (e_approval_flow e) ! e_current_approver_index e)) \<and>
              (e_current_approver_index e = 0 \<and>
               s_role (LISTS s (e_approval_flow e) ! e_current_approver_index e) = ''Manager'' \<longrightarrow>
                 manager_of s (e_user_id e) = Some user_id)))"
    using assms by (auto simp: check_can_approve_def terminal_def Let_def)
  have second: "check_can_approve (s\<lparr>USERS := (USERS s)(user_id \<mapsto> u\<lparr>u_company_id := c\<rparr>)\<rparr>) user_id
              (e\<lparr>e_company_id := c'\<rparr>) = check_can_approve s user_id e"
    if "USERS s user_id = Some u"
    using that by (auto simp: check_can_approve_def get_user_role_def manager_of_def Let_def)
  from first second show ?thesis by blast
qed


lemma after_first_approval_fields:
  "USERS after_first_approval = USERS seeded"
  "LISTS after_first_approval = LISTS seeded"
  "CURRENT_USER_ID after_first_approval = ''admin-user-123''"
  by (simp_all add: after_first_approval_eq director_fields)

theorem C10_witness:
  "\<not> terminal (snd (hd (EXPENSES with_outsider))) \<and>
   map_option u_company_id (USERS with_outsider ''finance-9'') = Some ''company-9'' \<and>
   e_company_id (snd (hd (EXPENSES with_outsider))) = ''company-1'' \<and>
   check_can_approve with_outsider ''finance-9'' (snd (hd (EXPENSES with_outsider))) = (True, None)"
proof -
  let ?e = "snd (hd (EXPENSES with_outsider))"
  have e: "?e = trip_expense\<lparr>e_history := [\<lparr>h_timestamp = ''t1'', h_action = ''Approved'',
          h_step = ''Manager Approval'', h_approver_id = ''admin-user-123'',
          h_comment = ''Approved.''\<rparr>],
        e_current_approver_index := 1, e_status := ''Pending (Finance Review)''\<rparr>"
    by (simp add: with_outsider_def after_first_approval_eq)
  have h1: "\<not> terminal ?e"
    by (simp add: e terminal_def)
  have role: "get_user_role with_outsider ''finance-9'' = Some ''Finance''"
    by (simp add: with_outsider_def get_user_role_def)
  have flow: "LISTS with_outsider (e_approval_flow ?e) = DEFAULT_APPROVAL_FLOW"
    unfolding e
    by (simp add: with_outsider_def after_first_approval_fields seeded_fields trip_expense_def)
  have idx: "e_current_approver_index ?e = 1"
    by (simp add: e)
  have company: "map_option u_company_id (USERS with_outsider ''finance-9'') = Some ''company-9''"
    by (simp add: with_outsider_def)
  have owner: "e_company_id ?e = ''company-1''"
    by (simp add: e trip_expense_def)
  have "check_can_approve with_outsider ''finance-9'' ?e = (True, None)"
    using C10_company_never_compared [OF h1, of with_outsider "''finance-9''"]
    by (simp add: role flow idx DEFAULT_APPROVAL_FLOW_def)
  with h1 company owner show ?thesis by blast
qed

section \<open>Advancing: \<open>process_next_approval_step\<close>\<close>

text \<open>
  C6. For an expense in the store: when the index after the current one is inside the flow,
  the index is incremented and the status becomes "Pending (" followed by the label of the
  step at the new index and ")"; otherwise the status becomes "Approved" and nothing else
  of the expense changes, the index included. Nothing else of the state changes either.
\<close>

theorem C6_advance_or_approve:
  assumes "map_of (EXPENSES s) eid = Some e"
  shows "map_of (EXPENSES (fst (process_next_approval_step s eid))) eid =
           Some (if e_current_approver_index e + 1 < length (LISTS s (e_approval_flow e))
                 then e\<lparr>e_current_approver_index := e_current_approver_index e + 1,
                        e_status := ''Pending ('' @
                          s_step_name (LISTS s (e_approval_flow e) ! (e_current_approver_index e + 1)) @
                          '')''\<rparr>
                 else e\<lparr>e_status := ''Approved''\<rparr>) \<and>
         (\<forall>x. x \<noteq> eid \<longrightarrow>
            map_of (EXPENSES (fst (process_next_approval_step s eid))) x = map_of (EXPENSES s) x) \<and>
         USERS (fst (process_next_approval_step s eid)) = USERS s \<and>
         LISTS (fst (process_next_approval_step s eid)) = LISTS s \<and>
         fst (snd (process_next_approval_step s eid)) = True"
  by (simp add: process_next_approval_step_eval [OF assms] AList.update_conv')

theorem C6_witness:
  "map_of (EXPENSES director) ''expense-1'' = Some trip_expense \<and>
   map_of (EXPENSES (fst (process_next_approval_step director ''expense-1''))) ''expense-1'' =
     Some (trip_expense\<lparr>e_current_approver_index := 1, e_status := ''Pending (Finance Review)''\<rparr>) \<and>
   map_of (EXPENSES (fst (process_next_approval_step at_last_step ''expense-1''))) ''expense-1'' =
     Some (trip_expense\<lparr>e_history :=
         [\<lparr>h_timestamp = ''t1'', h_action = ''Approved'', h_step = ''Manager Approval'',
           h_approver_id = ''admin-user-123'', h_comment = ''Approved.''\<rparr>,
          \<lparr>h_timestamp = ''t2'', h_action = ''Approved'', h_step = ''Finance Review'',
           h_approver_id = ''admin-user-123'', h_comment = ''Approved.''\<rparr>],
        e_current_approver_index := 2, e_status := ''Approved''\<rparr>)"
proof -
  have h: "map_of (EXPENSES director) ''expense-1'' = Some trip_expense"
    by (simp add: director_fields)
  have first: "map_of (EXPENSES (fst (process_next_approval_step director ''expense-1''))) ''expense-1'' =
     Some (trip_expense\<lparr>e_current_approver_index := 1, e_status := ''Pending (Finance Review)''\<rparr>)"
    using C6_advance_or_approve [OF h]
    by (simp add: director_fields seeded_fields trip_expense_def DEFAULT_APPROVAL_FLOW_def)
  let ?last = "trip_expense\<lparr>e_history :=
         [\<lparr>h_timestamp = ''t1'', h_action = ''Approved'', h_step = ''Manager Approval'',
           h_approver_id = ''admin-user-123'', h_comment = ''Approved.''\<rparr>,
          \<lparr>h_timestamp = ''t2'', h_action = ''Approved'', h_step = ''Finance Review'',
           h_approver_id = ''admin-user-123'', h_comment = ''Approved.''\<rparr>],
        e_current_approver_index := 2, e_status := ''Pending (Director Sign-off)''\<rparr>"
  have h': "map_of (EXPENSES at_last_step) ''expense-1'' = Some ?last"
    by (simp add: at_last_step_eq)
  have lists: "LISTS at_last_step = LISTS seeded"
    by (simp add: at_last_step_eq director_fields)
  have last: "map_of (EXPENSES (fst (process_next_approval_step at_last_step ''expense-1''))) ''expense-1'' =
     Some (?last\<lparr>e_status := ''Approved''\<rparr>)"
    using C6_advance_or_approve [OF h']
    by (simp add: lists seeded_fields trip_expense_def DEFAULT_APPROVAL_FLOW_def)
  from h first last show ?thesis by simp
qed

section \<open>Currency conversion: \<open>mock_currency_conversion\<close>\<close>

lemma dom_mock_rates: "dom mock_rates = {''USD'', ''EUR'', ''INR''}"
  by (auto simp: mock_rates_def split: if_splits)

lemma mock_rates_row_None:
  "mock_rates k = Some row \<Longrightarrow> (row j = None) = (j \<notin> {''USD'', ''EUR'', ''INR''})"
  by (auto simp: mock_rates_def split: if_splits)

lemma lookup_rate_None:
  "(lookup_rate f t = None) = (upper f \<notin> dom mock_rates \<or> upper t \<notin> dom mock_rates)"
proof (cases "mock_rates (upper f)")
  case None
  then show ?thesis by (auto simp: lookup_rate_def)
next
  case (Some row)
  have "(row (upper t) = None) = (upper t \<notin> dom mock_rates)"
    using mock_rates_row_None [OF Some] by (simp add: dom_mock_rates)
  with Some show ?thesis
    by (auto simp: lookup_rate_def)
qed

text \<open>
  C9, as the code has it. The amount is returned as it is when the two currency strings
  are equal (compared as they are, case included), and when the upper-cased source or the
  upper-cased target currency is not a key of the rate table; no error is raised. When the
  strings differ and both upper-cased currencies are keys of the table, the result is
  \<open>round(amount * rate, 2)\<close> for the rate the table holds for the upper-cased pair.
\<close>

theorem C9_conversion:
  "mock_currency_conversion ops c c amount = amount \<and>
   (upper f \<notin> dom mock_rates \<or> upper t \<notin> dom mock_rates \<longrightarrow>
      mock_currency_conversion ops f t amount = amount) \<and>
   (f \<noteq> t \<and> upper f \<in> dom mock_rates \<and> upper t \<in> dom mock_rates \<longrightarrow>
      (\<exists>row rate. mock_rates (upper f) = Some row \<and> row (upper t) = Some rate \<and>
         mock_currency_conversion ops f t amount = round_mul ops amount rate))"
proof -
  have same: "mock_currency_conversion ops c c amount = amount"
    by (simp add: mock_currency_conversion_def)
  have unknown: "mock_currency_conversion ops f t amount = amount"
    if "upper f \<notin> dom mock_rates \<or> upper t \<notin> dom mock_rates"
  proof -
    from that have "lookup_rate f t = None" by (simp add: lookup_rate_None)
    then show ?thesis by (simp add: mock_currency_conversion_def)
  qed
  have known: "\<exists>row rate. mock_rates (upper f) = Some row \<and> row (upper t) = Some rate \<and>
         mock_currency_conversion ops f t amount = round_mul ops amount rate"
    if "f \<noteq> t" and "upper f \<in> dom mock_rates" and "upper t \<in> dom mock_rates"
  proof -
    from that(2) obtain row where row: "mock_rates (upper f) = Some row" by auto
    from that(2,3) have "lookup_rate f t \<noteq> None" by (simp add: lookup_rate_None)
    then obtain rate where rate: "lookup_rate f t = Some rate" by auto
    with row have "row (upper t) = Some rate" by (simp add: lookup_rate_def)
    moreover from rate that(1)
    have "mock_currency_conversion ops f t amount = round_mul ops amount rate"
      by (simp add: mock_currency_conversion_def)
    ultimately show ?thesis using row by blast
  qed
  from same unknown known show ?thesis by blast
qed

lemma usd_lower_to_eur: "mock_currency_conversion dec_ops ''usd'' ''EUR'' 100 = 93"
  by (simp add: mock_currency_conversion_def lookup_rate_def mock_rates_def upper_def
        upper_char_def dec_ops_def py_round2_def Let_def)

theorem C9_witness:
  "upper ''GBP'' \<notin> dom mock_rates \<and>
   mock_currency_conversion dec_ops ''GBP'' ''USD'' 100 = 100 \<and>
   ''EUR'' \<noteq> ''USD'' \<and> upper ''EUR'' \<in> dom mock_rates \<and> upper ''USD'' \<in> dom mock_rates \<and>
   (\<exists>row rate. mock_rates (upper ''EUR'') = Some row \<and> row (upper ''USD'') = Some rate \<and>
      mock_currency_conversion dec_ops ''EUR'' ''USD'' 100 = round_mul dec_ops 100 rate)"
proof -
  have gbp: "upper ''GBP'' \<notin> dom mock_rates"
    by (simp add: dom_mock_rates upper_def upper_char_def)
  have eur: "upper ''EUR'' \<in> dom mock_rates"
    by (simp add: dom_mock_rates upper_def upper_char_def)
  have usd: "upper ''USD'' \<in> dom mock_rates"
    by (simp add: dom_mock_rates upper_def upper_char_def)
  have ne: "''EUR'' \<noteq> ''USD''" by simp
  from C9_conversion [of dec_ops "''GBP''" 100 "''GBP''" "''USD''"] gbp
  have a: "mock_currency_conversion dec_ops ''GBP'' ''USD'' 100 = 100" by blast
  from C9_conversion [of dec_ops "''EUR''" 100 "''EUR''" "''USD''"] ne eur usd
  have b: "\<exists>row rate. mock_rates (upper ''EUR'') = Some row \<and> row (upper ''USD'') = Some rate \<and>
      mock_currency_conversion dec_ops ''EUR'' ''USD'' 100 = round_mul dec_ops 100 rate" by blast
  from gbp a ne eur usd b show ?thesis by blast
qed

text \<open>
  C9 as the claim words it fails on a lower-case code: \<open>usd\<close> is not a key of the table,
  and the amount is converted all the same, because the lookup upper-cases both codes.
\<close>

theorem C9_counterexample:
  "''usd'' \<notin> dom mock_rates \<and>
   mock_currency_conversion dec_ops ''usd'' ''EUR'' 100 = 93 \<and>
   mock_currency_conversion dec_ops ''usd'' ''EUR'' 100 \<noteq> 100"
  by (simp add: dom_mock_rates usd_lower_to_eur)


section \<open>The decision routes: \<open>approve_expense\<close> and \<open>reject_expense\<close>\<close>

lemma approve_expense_result:
  assumes "map_of (EXPENSES s) eid = Some e"
    and "\<not> isl (snd (approve_expense s eid c now))"
  shows "map_of (EXPENSES (fst (approve_expense s eid c now))) eid =
     Some (if e_current_approver_index e + 1 < length (LISTS s (e_approval_flow e))
         then e\<lparr>e_history := e_history e @
                  [\<lparr>h_timestamp = now, h_action = ''Approved'',
                    h_step = s_step_name (LISTS s (e_approval_flow e) ! e_current_approver_index e),
                    h_approver_id = CURRENT_USER_ID s,
                    h_comment = (case c of None \<Rightarrow> ''Approved.'' | Some x \<Rightarrow> x)\<rparr>],
                e_current_approver_index := e_current_approver_index e + 1,
                e_status := ''Pending ('' @
                  s_step_name (LISTS s (e_approval_flow e) ! (e_current_approver_index e + 1)) @ '')''\<rparr>
         else e\<lparr>e_history := e_history e @
                  [\<lparr>h_timestamp = now, h_action = ''Approved'',
                    h_step = s_step_name (LISTS s (e_approval_flow e) ! e_current_approver_index e),
                    h_approver_id = CURRENT_USER_ID s,
                    h_comment = (case c of None \<Rightarrow> ''Approved.'' | Some x \<Rightarrow> x)\<rparr>],
                e_status := ''Approved''\<rparr>)"
proof -
  from assms(2) obtain r where "snd (approve_expense s eid c now) = Inr r"
    by (cases "snd (approve_expense s eid c now)") auto
  then have "approve_expense s eid c now = (fst (approve_expense s eid c now), Inr r)"
    by (metis prod.collapse)
  from approve_expense_success_pre [OF this] assms(1)
  have gate: "require_role [''Manager'', ''Admin'', ''Finance''] s = None"
    and can: "check_can_approve s (CURRENT_USER_ID s) e = (True, None)"
    and idx: "e_current_approver_index e < length (LISTS s (e_approval_flow e))"
    by auto
  show ?thesis
    by (simp only: approve_expense_eval(1) [OF gate assms(1) can idx]) (simp add: AList.update_conv')
qed

lemma reject_expense_result:
  assumes "map_of (EXPENSES s) eid = Some e"
    and "\<not> isl (snd (reject_expense s eid c now))"
  shows "map_of (EXPENSES (fst (reject_expense s eid c now))) eid =
     Some (e\<lparr>e_status := ''Rejected'', e_history := e_history e @
                  [\<lparr>h_timestamp = now, h_action = ''Rejected'',
                    h_step = s_step_name (LISTS s (e_approval_flow e) ! e_current_approver_index e),
                    h_approver_id = CURRENT_USER_ID s,
                    h_comment = (case c of None \<Rightarrow> ''Rejected.'' | Some x \<Rightarrow> x)\<rparr>]\<rparr>)"
proof -
  from assms(2) obtain r where "snd (reject_expense s eid c now) = Inr r"
    by (cases "snd (reject_expense s eid c now)") auto
  then have "reject_expense s eid c now = (fst (reject_expense s eid c now), Inr r)"
    by (metis prod.collapse)
  from reject_expense_success_pre [OF this] assms(1)
  have gate: "require_role [''Manager'', ''Admin'', ''Finance''] s = None"
    and can: "check_can_approve s (CURRENT_USER_ID s) e = (True, None)"
    and idx: "e_current_approver_index e < length (LISTS s (e_approval_flow e))"
    by auto
  show ?thesis
    by (simp add: reject_expense_eval [OF gate assms(1) can idx] AList.update_conv')
qed

lemma approve_expense_failed:
  "isl (snd (approve_expense s eid c now)) \<Longrightarrow> fst (approve_expense s eid c now) = s"
  by (cases "approve_expense s eid c now") (auto simp: isl_def dest: approve_expense_failure)

lemma reject_expense_failed:
  "isl (snd (reject_expense s eid c now)) \<Longrightarrow> fst (reject_expense s eid c now) = s"
  by (cases "reject_expense s eid c now") (auto simp: isl_def dest: reject_expense_failure)

text \<open>
  C1, as the code has it. A successful approve call increases the index of its expense by
  exactly 1 when the next index is inside the flow, and leaves the index as it is when it
  approves the last step (the status becomes "Approved"). A reject call, on whatever
  expense and whether it succeeds or not, leaves the index of every expense as it is. Once
  an expense is terminal, an approve or reject call on whatever expense leaves it as it is,
  and so do \<open>create_user\<close> and the submission of an expense under another identifier.
\<close>

theorem C1_index_steps:
  assumes "map_of (EXPENSES s) eid = Some e"
  shows "(\<not> isl (snd (approve_expense s eid c now)) \<longrightarrow>
            map_option e_current_approver_index (map_of (EXPENSES (fst (approve_expense s eid c now))) eid) =
              Some (if e_current_approver_index e + 1 < length (LISTS s (e_approval_flow e))
                    then e_current_approver_index e + 1 else e_current_approver_index e)) \<and>
         map_option e_current_approver_index (map_of (EXPENSES (fst (reject_expense s x c now))) eid) =
           Some (e_current_approver_index e) \<and>
         (terminal e \<longrightarrow>
            map_of (EXPENSES (fst (approve_expense s x c now))) eid = Some e \<and>
            map_of (EXPENSES (fst (reject_expense s x c now))) eid = Some e \<and>
            map_of (EXPENSES (fst (create_user s d n))) eid = Some e \<and>
            (n \<noteq> eid \<longrightarrow> map_of (EXPENSES (fst (submit_expense ops s d n))) eid = Some e))"
proof -
  have approve: "map_option e_current_approver_index
            (map_of (EXPENSES (fst (approve_expense s eid c now))) eid) =
              Some (if e_current_approver_index e + 1 < length (LISTS s (e_approval_flow e))
                    then e_current_approver_index e + 1 else e_current_approver_index e)"
    if "\<not> isl (snd (approve_expense s eid c now))"
    by (simp add: approve_expense_result [OF assms that])
  have reject: "map_option e_current_approver_index
            (map_of (EXPENSES (fst (reject_expense s x c now))) eid) =
           Some (e_current_approver_index e)"
  proof (cases "x = eid")
    case False
    then show ?thesis
      using assms by (simp add: reject_expense_other [of eid x])
  next
    case True
    show ?thesis
    proof (cases "isl (snd (reject_expense s eid c now))")
      case True
      with \<open>x = eid\<close> assms show ?thesis by (simp add: reject_expense_failed)
    next
      case False
      with \<open>x = eid\<close> show ?thesis by (simp add: reject_expense_result [OF assms False])
    qed
  qed
  have frozen: "map_of (EXPENSES (fst (approve_expense s x c now))) eid = Some e \<and>
            map_of (EXPENSES (fst (reject_expense s x c now))) eid = Some e"
    if "terminal e"
  proof (cases "x = eid")
    case False
    then show ?thesis
      using assms by (simp add: approve_expense_other [of eid x] reject_expense_other [of eid x])
  next
    case True
    with assms that show ?thesis
      by (simp add: approve_expense_terminal(1) reject_expense_terminal(1))
  qed
  have others: "map_of (EXPENSES (fst (create_user s d n))) eid = Some e \<and>
            (n \<noteq> eid \<longrightarrow> map_of (EXPENSES (fst (submit_expense ops s d n))) eid = Some e)"
    using assms by (simp add: create_user_EXPENSES submit_expense_other [of eid n])
  from approve reject frozen others show ?thesis by blast
qed

lemma director_approves:
  "\<not> isl (snd (approve_expense director ''expense-1'' None ''t1''))"
proof -
  have gate: "require_role [''Manager'', ''Admin'', ''Finance''] director = None"
    by (simp add: admin_gate director_fields)
  have look: "map_of (EXPENSES director) ''expense-1'' = Some trip_expense"
    by (simp add: director_fields)
  have can: "check_can_approve director (CURRENT_USER_ID director) trip_expense = (True, None)"
    by (simp add: director_fields admin_can trip_expense_def)
  have idx: "e_current_approver_index trip_expense <
               length (LISTS director (e_approval_flow trip_expense))"
    by (simp add: director_fields seeded_fields trip_expense_def DEFAULT_APPROVAL_FLOW_def)
  from approve_expense_eval(2) [OF gate look can idx, of None "''t1''"] show ?thesis by auto
qed

lemma director_rejects:
  "\<not> isl (snd (reject_expense director ''expense-1'' None ''t1''))"
proof -
  have gate: "require_role [''Manager'', ''Admin'', ''Finance''] director = None"
    by (simp add: admin_gate director_fields)
  have look: "map_of (EXPENSES director) ''expense-1'' = Some trip_expense"
    by (simp add: director_fields)
  have can: "check_can_approve director (CURRENT_USER_ID director) trip_expense = (True, None)"
    by (simp add: director_fields admin_can trip_expense_def)
  have idx: "e_current_approver_index trip_expense <
               length (LISTS director (e_approval_flow trip_expense))"
    by (simp add: director_fields seeded_fields trip_expense_def DEFAULT_APPROVAL_FLOW_def)
  from reject_expense_eval [OF gate look can idx, of None "''t1''"] show ?thesis by simp
qed

lemma rejected_by_director_fields:
  "USERS rejected_by_director = USERS seeded"
  "LISTS rejected_by_director = LISTS seeded"
  "CURRENT_USER_ID rejected_by_director = ''admin-user-123''"
  "map_of (EXPENSES rejected_by_director) ''expense-1'' =
     Some (trip_expense\<lparr>e_status := ''Rejected'',
        e_history := [\<lparr>h_timestamp = ''t1'', h_action = ''Rejected'', h_step = ''Manager Approval'',
          h_approver_id = ''admin-user-123'', h_comment = ''Rejected.''\<rparr>]\<rparr>)"
  by (simp_all add: rejected_by_director_eq director_fields)

theorem C1_witness:
  "map_of (EXPENSES director) ''expense-1'' = Some trip_expense \<and>
   \<not> isl (snd (approve_expense director ''expense-1'' None ''t1'')) \<and>
   e_current_approver_index trip_expense = 0 \<and>
   map_option e_current_approver_index
     (map_of (EXPENSES (fst (approve_expense director ''expense-1'' None ''t1''))) ''expense-1'') = Some 1 \<and>
   map_option e_current_approver_index
     (map_of (EXPENSES (fst (reject_expense director ''expense-1'' None ''t1''))) ''expense-1'') = Some 0 \<and>
   terminal (trip_expense\<lparr>e_status := ''Rejected'',
        e_history := [\<lparr>h_timestamp = ''t1'', h_action = ''Rejected'', h_step = ''Manager Approval'',
          h_approver_id = ''admin-user-123'', h_comment = ''Rejected.''\<rparr>]\<rparr>) \<and>
   map_option e_current_approver_index
     (map_of (EXPENSES (fst (approve_expense rejected_by_director ''expense-1'' None ''t2''))) ''expense-1'') =
     Some 0"
proof -
  have h: "map_of (EXPENSES director) ''expense-1'' = Some trip_expense"
    by (simp add: director_fields)
  have i0: "e_current_approver_index trip_expense = 0"
    by (simp add: trip_expense_def)
  have len: "e_current_approver_index trip_expense + 1 <
               length (LISTS director (e_approval_flow trip_expense))"
    by (simp add: director_fields seeded_fields trip_expense_def DEFAULT_APPROVAL_FLOW_def)
  from C1_index_steps [OF h, of None "''t1''" "''expense-1''" Map.empty "''user-2''" dec_ops]
    director_approves len i0
  have a: "map_option e_current_approver_index
     (map_of (EXPENSES (fst (approve_expense director ''expense-1'' None ''t1''))) ''expense-1'') = Some 1"
    and r: "map_option e_current_approver_index
     (map_of (EXPENSES (fst (reject_expense director ''expense-1'' None ''t1''))) ''expense-1'') = Some 0"
    by simp_all
  let ?rej = "trip_expense\<lparr>e_status := ''Rejected'',
        e_history := [\<lparr>h_timestamp = ''t1'', h_action = ''Rejected'', h_step = ''Manager Approval'',
          h_approver_id = ''admin-user-123'', h_comment = ''Rejected.''\<rparr>]\<rparr>"
  have h': "map_of (EXPENSES rejected_by_director) ''expense-1'' = Some ?rej"
    by (rule rejected_by_director_fields)
  have t: "terminal ?rej"
    by (simp add: terminal_def)
  from C1_index_steps [OF h', of None "''t2''" "''expense-1''" Map.empty "''user-2''" dec_ops] t
  have f: "map_option e_current_approver_index
     (map_of (EXPENSES (fst (approve_expense rejected_by_director ''expense-1'' None ''t2''))) ''expense-1'') =
     Some 0"
    by (simp add: trip_expense_def)
  from h director_approves i0 a r t f show ?thesis by blast
qed

text \<open>
  C1 as the claim words it fails on the last step: the approval of the step at index 2 of
  the three-step flow succeeds and the index stays 2.
\<close>

theorem C1_counterexample:
  "map_option e_current_approver_index (map_of (EXPENSES at_last_step) ''expense-1'') = Some 2 \<and>
   \<not> isl (snd (approve_expense at_last_step ''expense-1'' None ''t3'')) \<and>
   map_option e_current_approver_index
     (map_of (EXPENSES (fst (approve_expense at_last_step ''expense-1'' None ''t3''))) ''expense-1'') =
     Some 2 \<and>
   map_option e_status
     (map_of (EXPENSES (fst (approve_expense at_last_step ''expense-1'' None ''t3''))) ''expense-1'') =
     Some ''Approved''"
  by (simp add: last_approval) (simp add: at_last_step_eq)


text \<open>
  C3, as the code has it. The expense is terminal. \<open>check_can_approve\<close> refuses every
  user, Admin included, with the reason "This expense is already finalized.". The approve
  and the reject route answer 403 with that reason whenever the acting user passes the
  role gate of the routes (a non-empty identifier whose role is Manager, Admin or Finance).
  Whoever the acting user is, both routes fail and leave the whole state, and so the
  status, index and history of the expense, as it was.
\<close>

theorem C3_terminal_is_final:
  assumes "map_of (EXPENSES s) eid = Some e"
    and "terminal e"
  shows "check_can_approve s user_id e = (False, Some ''This expense is already finalized.'') \<and>
         (CURRENT_USER_ID s \<noteq> [] \<and>
          get_user_role s (CURRENT_USER_ID s) \<in> {Some ''Manager'', Some ''Admin'', Some ''Finance''} \<longrightarrow>
            approve_expense s eid c now =
              (s, Inl (HTTP 403 (Some ''This expense is already finalized.''))) \<and>
            reject_expense s eid c now =
              (s, Inl (HTTP 403 (Some ''This expense is already finalized.'')))) \<and>
         fst (approve_expense s eid c now) = s \<and> isl (snd (approve_expense s eid c now)) \<and>
         fst (reject_expense s eid c now) = s \<and> isl (snd (reject_expense s eid c now))"
proof -
  have denied: "check_can_approve s u e = (False, Some ''This expense is already finalized.'')" for u
    using assms(2) by (rule terminal_denied)
  have gated: "approve_expense s eid c now =
              (s, Inl (HTTP 403 (Some ''This expense is already finalized.''))) \<and>
            reject_expense s eid c now =
              (s, Inl (HTTP 403 (Some ''This expense is already finalized.'')))"
    if "CURRENT_USER_ID s \<noteq> []"
      and "get_user_role s (CURRENT_USER_ID s) \<in> {Some ''Manager'', Some ''Admin'', Some ''Finance''}"
  proof -
    from that have "require_role [''Manager'', ''Admin'', ''Finance''] s = None"
      by (simp only: require_role_gate) simp
    then show ?thesis
      using assms(1) by (simp add: approve_expense_def reject_expense_def denied Let_def)
  qed
  from denied gated approve_expense_terminal [OF assms] reject_expense_terminal [OF assms]
  show ?thesis by blast
qed

theorem C3_witness:
  "map_of (EXPENSES rejected_by_director) ''expense-1'' =
     Some (trip_expense\<lparr>e_status := ''Rejected'',
        e_history := [\<lparr>h_timestamp = ''t1'', h_action = ''Rejected'', h_step = ''Manager Approval'',
          h_approver_id = ''admin-user-123'', h_comment = ''Rejected.''\<rparr>]\<rparr>) \<and>
   terminal (trip_expense\<lparr>e_status := ''Rejected'',
        e_history := [\<lparr>h_timestamp = ''t1'', h_action = ''Rejected'', h_step = ''Manager Approval'',
          h_approver_id = ''admin-user-123'', h_comment = ''Rejected.''\<rparr>]\<rparr>) \<and>
   CURRENT_USER_ID rejected_by_director \<noteq> [] \<and>
   get_user_role rejected_by_director (CURRENT_USER_ID rejected_by_director) = Some ''Admin'' \<and>
   approve_expense rejected_by_director ''expense-1'' None ''t2'' =
     (rejected_by_director, Inl (HTTP 403 (Some ''This expense is already finalized.''))) \<and>
   reject_expense rejected_by_director ''expense-1'' None ''t2'' =
     (rejected_by_director, Inl (HTTP 403 (Some ''This expense is already finalized.'')))"
proof -
  let ?rej = "trip_expense\<lparr>e_status := ''Rejected'',
        e_history := [\<lparr>h_timestamp = ''t1'', h_action = ''Rejected'', h_step = ''Manager Approval'',
          h_approver_id = ''admin-user-123'', h_comment = ''Rejected.''\<rparr>]\<rparr>"
  have h: "map_of (EXPENSES rejected_by_director) ''expense-1'' = Some ?rej"
    by (rule rejected_by_director_fields)
  have t: "terminal ?rej"
    by (simp add: terminal_def)
  have u: "CURRENT_USER_ID rejected_by_director \<noteq> []"
    by (simp add: rejected_by_director_fields)
  have r: "get_user_role rejected_by_director (CURRENT_USER_ID rejected_by_director) = Some ''Admin''"
    by (simp add: get_user_role_def rejected_by_director_fields seeded_fields)
  from C3_terminal_is_final [OF h t, of "''admin-user-123''" None "''t2''"] u r
  have "approve_expense rejected_by_director ''expense-1'' None ''t2'' =
     (rejected_by_director, Inl (HTTP 403 (Some ''This expense is already finalized.''))) \<and>
   reject_expense rejected_by_director ''expense-1'' None ''t2'' =
     (rejected_by_director, Inl (HTTP 403 (Some ''This expense is already finalized.'')))"
    by simp
  with h t u r show ?thesis by blast
qed

text \<open>
  C3 as the claim words it fails for an acting user outside the role gate: on the rejected
  expense, the employee's approve and reject calls are refused by the decorator with
  "Access denied. Required roles: Manager, Admin, Finance", not with the finalized reason.
\<close>

theorem C3_counterexample:
  "map_option e_status
     (map_of (EXPENSES (acting_as ''employee-1'' rejected_by_director)) ''expense-1'') =
     Some ''Rejected'' \<and>
   approve_expense (acting_as ''employee-1'' rejected_by_director) ''expense-1'' None ''t2'' =
     (acting_as ''employee-1'' rejected_by_director,
      Inl (HTTP 403 (Some ''Access denied. Required roles: Manager, Admin, Finance''))) \<and>
   reject_expense (acting_as ''employee-1'' rejected_by_director) ''expense-1'' None ''t2'' =
     (acting_as ''employee-1'' rejected_by_director,
      Inl (HTTP 403 (Some ''Access denied. Required roles: Manager, Admin, Finance''))) \<and>
   ''Access denied. Required roles: Manager, Admin, Finance'' \<noteq> ''This expense is already finalized.''"
proof -
  have gate: "require_role [''Manager'', ''Admin'', ''Finance''] (acting_as ''employee-1'' rejected_by_director) =
     Some (HTTP 403 (Some ''Access denied. Required roles: Manager, Admin, Finance''))"
    by (simp add: require_role_def get_current_user_id_def get_user_role_def acting_as_fields
          rejected_by_director_fields seeded_fields)
  have st: "map_option e_status
     (map_of (EXPENSES (acting_as ''employee-1'' rejected_by_director)) ''expense-1'') = Some ''Rejected''"
    by (simp add: acting_as_fields rejected_by_director_fields)
  from gate st show ?thesis
    by (simp add: approve_expense_def reject_expense_def)
qed

text \<open>
  C7. A successful approve or reject call leaves in its expense the history it found,
  followed by exactly one new entry: the time of the call, the action, the label of the
  step at the index the expense had before the call, the acting user's identifier, and the
  comment of the request, or "Approved." / "Rejected." when the request has none. A
  successful reject sets the status to "Rejected" and leaves the index. A failed call
  leaves the state as it was, and a call on another expense leaves this expense as it was,
  so no entry is ever changed or removed.
\<close>

theorem C7_history_append_only:
  assumes "map_of (EXPENSES s) eid = Some e"
  shows "(\<not> isl (snd (approve_expense s eid c now)) \<longrightarrow>
            map_option e_history (map_of (EXPENSES (fst (approve_expense s eid c now))) eid) =
              Some (e_history e @
                [\<lparr>h_timestamp = now, h_action = ''Approved'',
                  h_step = s_step_name (LISTS s (e_approval_flow e) ! e_current_approver_index e),
                  h_approver_id = CURRENT_USER_ID s,
                  h_comment = (case c of None \<Rightarrow> ''Approved.'' | Some x \<Rightarrow> x)\<rparr>])) \<and>
         (\<not> isl (snd (reject_expense s eid c now)) \<longrightarrow>
            map_of (EXPENSES (fst (reject_expense s eid c now))) eid =
              Some (e\<lparr>e_status := ''Rejected'',
                     e_history := e_history e @
                       [\<lparr>h_timestamp = now, h_action = ''Rejected'',
                         h_step = s_step_name (LISTS s (e_approval_flow e) ! e_current_approver_index e),
                         h_approver_id = CURRENT_USER_ID s,
                         h_comment = (case c of None \<Rightarrow> ''Rejected.'' | Some x \<Rightarrow> x)\<rparr>]\<rparr>)) \<and>
         (isl (snd (approve_expense s eid c now)) \<longrightarrow> fst (approve_expense s eid c now) = s) \<and>
         (isl (snd (reject_expense s eid c now)) \<longrightarrow> fst (reject_expense s eid c now) = s) \<and>
         (x \<noteq> eid \<longrightarrow>
            map_of (EXPENSES (fst (approve_expense s x c now))) eid = Some e \<and>
            map_of (EXPENSES (fst (reject_expense s x c now))) eid = Some e)"
proof -
  have a: "map_option e_history (map_of (EXPENSES (fst (approve_expense s eid c now))) eid) =
              Some (e_history e @
                [\<lparr>h_timestamp = now, h_action = ''Approved'',
                  h_step = s_step_name (LISTS s (e_approval_flow e) ! e_current_approver_index e),
                  h_approver_id = CURRENT_USER_ID s,
                  h_comment = (case c of None \<Rightarrow> ''Approved.'' | Some x \<Rightarrow> x)\<rparr>])"
    if "\<not> isl (snd (approve_expense s eid c now))"
    by (simp add: approve_expense_result [OF assms that])
  have r: "map_of (EXPENSES (fst (reject_expense s eid c now))) eid =
              Some (e\<lparr>e_status := ''Rejected'',
                     e_history := e_history e @
                       [\<lparr>h_timestamp = now, h_action = ''Rejected'',
                         h_step = s_step_name (LISTS s (e_approval_flow e) ! e_current_approver_index e),
                         h_approver_id = CURRENT_USER_ID s,
                         h_comment = (case c of None \<Rightarrow> ''Rejected.'' | Some x \<Rightarrow> x)\<rparr>]\<rparr>)"
    if "\<not> isl (snd (reject_expense s eid c now))"
    by (rule reject_expense_result [OF assms that])
  have other: "map_of (EXPENSES (fst (approve_expense s x c now))) eid = Some e \<and>
            map_of (EXPENSES (fst (reject_expense s x c now))) eid = Some e"
    if "x \<noteq> eid"
    using that assms by (simp add: approve_expense_other [of eid x] reject_expense_other [of eid x])
  from a r other approve_expense_failed [of s eid c now] reject_expense_failed [of s eid c now]
  show ?thesis by blast
qed

theorem C7_witness:
  "map_of (EXPENSES director) ''expense-1'' = Some trip_expense \<and>
   \<not> isl (snd (approve_expense director ''expense-1'' None ''t1'')) \<and>
   \<not> isl (snd (reject_expense director ''expense-1'' (Some ''no receipt'') ''t1'')) \<and>
   map_option e_history
     (map_of (EXPENSES (fst (approve_expense director ''expense-1'' None ''t1''))) ''expense-1'') =
     Some [\<lparr>h_timestamp = ''t1'', h_action = ''Approved'', h_step = ''Manager Approval'',
            h_approver_id = ''admin-user-123'', h_comment = ''Approved.''\<rparr>] \<and>
   map_of (EXPENSES (fst (reject_expense director ''expense-1'' (Some ''no receipt'') ''t1''))) ''expense-1'' =
     Some (trip_expense\<lparr>e_status := ''Rejected'',
        e_history := [\<lparr>h_timestamp = ''t1'', h_action = ''Rejected'', h_step = ''Manager Approval'',
          h_approver_id = ''admin-user-123'', h_comment = ''no receipt''\<rparr>]\<rparr>) \<and>
   ''expense-2'' \<noteq> ''expense-1'' \<and>
   map_of (EXPENSES (fst (approve_expense director ''expense-2'' None ''t1''))) ''expense-1'' =
     Some trip_expense"
proof -
  have h: "map_of (EXPENSES director) ''expense-1'' = Some trip_expense"
    by (simp add: director_fields)
  have gate: "require_role [''Manager'', ''Admin'', ''Finance''] director = None"
    by (simp add: admin_gate director_fields)
  have can: "check_can_approve director (CURRENT_USER_ID director) trip_expense = (True, None)"
    by (simp add: director_fields admin_can trip_expense_def)
  have idx: "e_current_approver_index trip_expense <
               length (LISTS director (e_approval_flow trip_expense))"
    by (simp add: director_fields seeded_fields trip_expense_def DEFAULT_APPROVAL_FLOW_def)
  from reject_expense_eval [OF gate h can idx, of "Some ''no receipt''" "''t1''"]
  have rj: "\<not> isl (snd (reject_expense director ''expense-1'' (Some ''no receipt'') ''t1''))"
    by simp
  have ne: "''expense-2'' \<noteq> ''expense-1''" by simp
  have step: "s_step_name (LISTS director (e_approval_flow trip_expense) !
                e_current_approver_index trip_expense) = ''Manager Approval''"
    by (simp add: director_fields seeded_fields trip_expense_def DEFAULT_APPROVAL_FLOW_def)
  have hist: "e_history trip_expense = []"
    by (simp add: trip_expense_def)
  from C7_history_append_only [OF h, of None "''t1''" "''expense-2''"] director_approves ne
  have a: "map_option e_history
     (map_of (EXPENSES (fst (approve_expense director ''expense-1'' None ''t1''))) ''expense-1'') =
     Some [\<lparr>h_timestamp = ''t1'', h_action = ''Approved'', h_step = ''Manager Approval'',
            h_approver_id = ''admin-user-123'', h_comment = ''Approved.''\<rparr>]"
    and o: "map_of (EXPENSES (fst (approve_expense director ''expense-2'' None ''t1''))) ''expense-1'' =
     Some trip_expense"
    by (simp_all add: step hist director_fields(1))
  from C7_history_append_only [OF h, of "Some ''no receipt''" "''t1''" "''expense-2''"] rj
  have r: "map_of (EXPENSES (fst (reject_expense director ''expense-1'' (Some ''no receipt'') ''t1''))) ''expense-1'' =
     Some (trip_expense\<lparr>e_status := ''Rejected'',
        e_history := [\<lparr>h_timestamp = ''t1'', h_action = ''Rejected'', h_step = ''Manager Approval'',
          h_approver_id = ''admin-user-123'', h_comment = ''no receipt''\<rparr>]\<rparr>)"
    by (simp add: step hist director_fields(1))
  from h director_approves rj a r ne o show ?thesis by blast
qed


section \<open>Submission: whose list the expense holds\<close>

lemma submit_expense_success:
  assumes "submit_expense ops s data eid = (s', Inr r)"
  shows "\<exists>e company.
           map_of (EXPENSES s') eid = Some e \<and>
           COMPANIES s' (e_company_id e) = Some company \<and>
           e_approval_flow e = c_approval_config company \<and>
           e_current_approver_index e = 0 \<and> e_history e = [] \<and>
           e_status e = ''Pending (Manager Approval)''"
  using assms
  by (auto simp: submit_expense_def Let_def AList.update_conv'
           split: option.splits prod.splits list.splits if_splits)

text \<open>
  C2, as the code has it. \<open>submit_expense\<close> stores in the expense the company's
  \<open>approval_config\<close> list itself, not a copy of it. Binding the company's
  \<open>approval_config\<close> to another list afterwards leaves the flow of the expense as it
  was; a change made in place to the template list is a change of the flow of the expense.
  None of the program's own handlers writes to a list of steps.
\<close>

theorem C2_flow_is_the_template_list:
  assumes "submit_expense ops s data eid = (s', Inr r)"
  shows "(\<exists>e company.
            map_of (EXPENSES s') eid = Some e \<and>
            COMPANIES s' (e_company_id e) = Some company \<and>
            e_approval_flow e = c_approval_config company \<and>
            (\<forall>a. map_of (EXPENSES (set_approval_config (e_company_id e) a s')) eid = Some e \<and>
                 LISTS (set_approval_config (e_company_id e) a s') (e_approval_flow e) =
                   LISTS s' (e_approval_flow e)) \<and>
            (\<forall>x. map_of (EXPENSES (list_append (c_approval_config company) x s')) eid = Some e \<and>
                 LISTS (list_append (c_approval_config company) x s') (e_approval_flow e) =
                   LISTS s' (e_approval_flow e) @ [x])) \<and>
         LISTS s' = LISTS s \<and>
         LISTS (fst (approve_expense s' y c now)) = LISTS s' \<and>
         LISTS (fst (reject_expense s' y c now)) = LISTS s' \<and>
         LISTS (fst (create_user s' d n)) = LISTS s'"
proof -
  from submit_expense_success [OF assms] obtain e company where
    e: "map_of (EXPENSES s') eid = Some e"
    and co: "COMPANIES s' (e_company_id e) = Some company"
    and sh: "e_approval_flow e = c_approval_config company"
    by blast
  have rebind: "map_of (EXPENSES (set_approval_config (e_company_id e) a s')) eid = Some e \<and>
                LISTS (set_approval_config (e_company_id e) a s') (e_approval_flow e) =
                  LISTS s' (e_approval_flow e)" for a
    using e co by (simp add: set_approval_config_def)
  have inplace: "map_of (EXPENSES (list_append (c_approval_config company) x s')) eid = Some e \<and>
                 LISTS (list_append (c_approval_config company) x s') (e_approval_flow e) =
                   LISTS s' (e_approval_flow e) @ [x]" for x
    using e sh by (simp add: list_append_def)
  have lists: "LISTS s' = LISTS s"
    using submit_expense_LISTS [of ops s data eid] assms by simp
  from e co sh rebind inplace lists show ?thesis
    by (simp add: approve_expense_LISTS reject_expense_LISTS create_user_LISTS)
qed

theorem C2_witness:
  "submit_expense dec_ops seeded trip_request ''expense-1'' =
     (submitted,
      Inr \<lparr>r_message = ''Expense submitted successfully.'', r_expense_id = ''expense-1'',
           r_pending_step = ''Manager Approval'', r_amount_in_company_currency = (108, ''USD'')\<rparr>) \<and>
   (\<exists>e company.
      map_of (EXPENSES submitted) ''expense-1'' = Some e \<and>
      COMPANIES submitted (e_company_id e) = Some company \<and>
      e_approval_flow e = c_approval_config company)"
proof -
  have run: "submit_expense dec_ops seeded trip_request ''expense-1'' =
     (submitted,
      Inr \<lparr>r_message = ''Expense submitted successfully.'', r_expense_id = ''expense-1'',
           r_pending_step = ''Manager Approval'', r_amount_in_company_currency = (108, ''USD'')\<rparr>)"
    by (simp add: submit_trip submitted_eq)
  from C2_flow_is_the_template_list [OF run] run show ?thesis by blast
qed

text \<open>
  C2 as the claim words it fails for a change made in place. The expense of the trip holds
  the list \<open>DEFAULT_APPROVAL_FLOW\<close>, which is the company's template; appending an Audit
  step to the template makes it the fourth step of the expense, and the approval of the
  Director step then leaves the expense pending instead of approved.
\<close>

theorem C2_counterexample:
  "map_of (EXPENSES submitted) ''expense-1'' = Some trip_expense \<and>
   map_option c_approval_config (COMPANIES submitted ''company-1'') =
     Some (e_approval_flow trip_expense) \<and>
   LISTS submitted (e_approval_flow trip_expense) = DEFAULT_APPROVAL_FLOW \<and>
   map_of (EXPENSES (list_append DEFAULT_APPROVAL_FLOW_addr
       \<lparr>s_role = ''Finance'', s_step_name = ''Audit''\<rparr> submitted)) ''expense-1'' = Some trip_expense \<and>
   LISTS (list_append DEFAULT_APPROVAL_FLOW_addr
       \<lparr>s_role = ''Finance'', s_step_name = ''Audit''\<rparr> submitted) (e_approval_flow trip_expense) =
     DEFAULT_APPROVAL_FLOW @ [\<lparr>s_role = ''Finance'', s_step_name = ''Audit''\<rparr>] \<and>
   LISTS (list_append DEFAULT_APPROVAL_FLOW_addr
       \<lparr>s_role = ''Finance'', s_step_name = ''Audit''\<rparr> submitted) (e_approval_flow trip_expense) \<noteq>
     LISTS submitted (e_approval_flow trip_expense) \<and>
   map_option e_status (map_of (EXPENSES (fst (approve_expense at_last_step
       ''expense-1'' None ''t3''))) ''expense-1'') = Some ''Approved'' \<and>
   map_option e_status (map_of (EXPENSES (fst (approve_expense
       (list_append DEFAULT_APPROVAL_FLOW_addr \<lparr>s_role = ''Finance'', s_step_name = ''Audit''\<rparr> at_last_step)
       ''expense-1'' None ''t3''))) ''expense-1'') = Some ''Pending (Audit)''"
proof -
  let ?audit = "\<lparr>s_role = ''Finance'', s_step_name = ''Audit''\<rparr>"
  let ?s = "list_append DEFAULT_APPROVAL_FLOW_addr ?audit at_last_step"
  have flow: "e_approval_flow trip_expense = DEFAULT_APPROVAL_FLOW_addr"
    by (simp add: trip_expense_def)
  have a: "map_of (EXPENSES submitted) ''expense-1'' = Some trip_expense"
    by (simp add: submitted_fields)
  have b: "map_option c_approval_config (COMPANIES submitted ''company-1'') =
             Some (e_approval_flow trip_expense)"
    by (simp add: submitted_fields seeded_fields flow)
  have c: "LISTS submitted (e_approval_flow trip_expense) = DEFAULT_APPROVAL_FLOW"
    by (simp add: submitted_fields seeded_fields flow)
  have d: "map_of (EXPENSES (list_append DEFAULT_APPROVAL_FLOW_addr ?audit submitted)) ''expense-1'' =
             Some trip_expense"
    by (simp add: list_append_def submitted_fields)
  have e: "LISTS (list_append DEFAULT_APPROVAL_FLOW_addr ?audit submitted) (e_approval_flow trip_expense) =
             DEFAULT_APPROVAL_FLOW @ [?audit]"
    by (simp add: list_append_def submitted_fields seeded_fields flow)
  have f: "map_option e_status (map_of (EXPENSES (fst (approve_expense at_last_step
             ''expense-1'' None ''t3''))) ''expense-1'') = Some ''Approved''"
    by (simp add: last_approval)
  let ?last = "trip_expense\<lparr>e_history :=
         [\<lparr>h_timestamp = ''t1'', h_action = ''Approved'', h_step = ''Manager Approval'',
           h_approver_id = ''admin-user-123'', h_comment = ''Approved.''\<rparr>,
          \<lparr>h_timestamp = ''t2'', h_action = ''Approved'', h_step = ''Finance Review'',
           h_approver_id = ''admin-user-123'', h_comment = ''Approved.''\<rparr>],
        e_current_approver_index := 2, e_status := ''Pending (Director Sign-off)''\<rparr>"
  have s_fields: "CURRENT_USER_ID ?s = ''admin-user-123''" "USERS ?s = USERS seeded"
    "LISTS ?s DEFAULT_APPROVAL_FLOW_addr = DEFAULT_APPROVAL_FLOW @ [?audit]"
    by (simp_all add: list_append_def at_last_step_eq director_fields seeded_fields)
  have look: "map_of (EXPENSES ?s) ''expense-1'' = Some ?last"
    by (simp add: list_append_def at_last_step_eq)
  have gate: "require_role [''Manager'', ''Admin'', ''Finance''] ?s = None"
    by (simp add: admin_gate s_fields)
  have can: "check_can_approve ?s (CURRENT_USER_ID ?s) ?last = (True, None)"
    by (simp add: s_fields admin_can)
  have idx: "e_current_approver_index ?last < length (LISTS ?s (e_approval_flow ?last))"
    by (simp add: s_fields flow DEFAULT_APPROVAL_FLOW_def)
  have g: "map_option e_status (map_of (EXPENSES (fst (approve_expense ?s
             ''expense-1'' None ''t3''))) ''expense-1'') = Some ''Pending (Audit)''"
    by (simp only: approve_expense_eval(1) [OF gate look can idx])
       (simp add: AList.update_conv' s_fields flow DEFAULT_APPROVAL_FLOW_def)
  from a b c d e f g show ?thesis by simp
qed

section \<open>The pending list: \<open>view_pending_expenses\<close>\<close>

lemma pending_loop_filter:
  "pending_loop s user_id user_role company_id es acc =
     acc @ filter (listed_for s user_id user_role company_id) es"
  by (induction es arbitrary: acc) (auto simp: listed_for_def terminal_def Let_def)

lemma view_pending_expenses_filter:
  assumes "require_role [''Manager'', ''Admin'', ''Finance''] s = None"
    and "USERS s (CURRENT_USER_ID s) = Some u"
  shows "view_pending_expenses s =
     Inr (filter (listed_for s (CURRENT_USER_ID s) (Some (u_role u)) (u_company_id u))
            (map snd (EXPENSES s)))"
  using assms
  by (simp add: view_pending_expenses_def get_current_user_id_def get_user_role_def
        pending_loop_filter Let_def)

text \<open>
  Where the list and the check agree: on an expense whose index is inside its flow and
  whose Manager step, if the current step is one, is the step at index 0, the loop lists
  the expense exactly when it is an expense of the caller's company that is not terminal
  and that \<open>check_can_approve\<close> allows.
\<close>

lemma listed_for_matches_check:
  assumes "e_current_approver_index e < length (LISTS s (e_approval_flow e))"
    and "s_role (LISTS s (e_approval_flow e) ! e_current_approver_index e) = ''Manager'' \<Longrightarrow>
           e_current_approver_index e = 0"
  shows "listed_for s user_id (get_user_role s user_id) company_id e =
           (e_company_id e = company_id \<and> \<not> terminal e \<and>
            check_can_approve s user_id e = (True, None))"
  using assms
  by (auto simp: listed_for_def check_can_approve_def terminal_def Let_def)

subsection \<open>Every state of the program uses the default flow\<close>

lemma set_update_cases:
  "p \<in> set (AList.update k v al) \<Longrightarrow> p = (k, v) \<or> p \<in> set al"
  by (induction al) (auto split: if_splits)

lemma flows_default_update:
  assumes "flows_default s"
    and "e_approval_flow e = DEFAULT_APPROVAL_FLOW_addr"
    and "e_current_approver_index e < length DEFAULT_APPROVAL_FLOW"
  shows "flows_default (s\<lparr>EXPENSES := AList.update eid e (EXPENSES s)\<rparr>)"
  using assms by (auto simp: flows_default_def dest!: set_update_cases)

lemma flows_default_stored:
  assumes "flows_default s" and "map_of (EXPENSES s) eid = Some e"
  shows "e_approval_flow e = DEFAULT_APPROVAL_FLOW_addr"
    and "e_current_approver_index e < length DEFAULT_APPROVAL_FLOW"
    and "LISTS s (e_approval_flow e) = DEFAULT_APPROVAL_FLOW"
proof -
  from assms(2) have "(eid, e) \<in> set (EXPENSES s)" by (rule map_of_SomeD)
  then have "e \<in> snd ` set (EXPENSES s)" by force
  with assms(1) show "e_approval_flow e = DEFAULT_APPROVAL_FLOW_addr"
    and "e_current_approver_index e < length DEFAULT_APPROVAL_FLOW"
    and "LISTS s (e_approval_flow e) = DEFAULT_APPROVAL_FLOW"
    by (auto simp: flows_default_def)
qed

lemma flows_default_module_state: "flows_default module_state"
  by (simp add: flows_default_def module_state_def)

lemma flows_default_initialize_database:
  "flows_default s \<Longrightarrow> flows_default (initialize_database company_id manager_id employee_id s)"
  by (auto simp: flows_default_def initialize_database_def Let_def)

lemma flows_default_acting_as: "flows_default s \<Longrightarrow> flows_default (acting_as user_id s)"
  by (simp add: flows_default_def acting_as_def)

lemma flows_default_create_user:
  "flows_default s \<Longrightarrow> flows_default (fst (create_user s data new_user_id))"
  by (auto simp: flows_default_def create_user_def Let_def split: option.splits prod.splits if_splits)

lemma length_DEFAULT_APPROVAL_FLOW: "length DEFAULT_APPROVAL_FLOW = 3"
  by (simp add: DEFAULT_APPROVAL_FLOW_def)

lemma flows_default_submit_expense:
  assumes "flows_default s"
  shows "flows_default (fst (submit_expense ops s data expense_id))"
proof -
  have config: "c_approval_config company = DEFAULT_APPROVAL_FLOW_addr"
    if "COMPANIES s company_id = Some company" for company_id company
    using assms that by (auto simp: flows_default_def)
  show ?thesis
    using assms
    by (auto simp: submit_expense_def Let_def config length_DEFAULT_APPROVAL_FLOW
             intro!: flows_default_update split: option.split list.split)
qed

lemma flows_default_approve_expense:
  assumes "flows_default s"
  shows "flows_default (fst (approve_expense s eid c now))"
proof (cases "isl (snd (approve_expense s eid c now))")
  case True
  with assms show ?thesis by (simp add: approve_expense_failed)
next
  case False
  then obtain r where "snd (approve_expense s eid c now) = Inr r"
    by (cases "snd (approve_expense s eid c now)") auto
  then have "approve_expense s eid c now = (fst (approve_expense s eid c now), Inr r)"
    by (metis prod.collapse)
  from approve_expense_success_pre [OF this] obtain e where
    gate: "require_role [''Manager'', ''Admin'', ''Finance''] s = None"
    and look: "map_of (EXPENSES s) eid = Some e"
    and can: "check_can_approve s (CURRENT_USER_ID s) e = (True, None)"
    and idx: "e_current_approver_index e < length (LISTS s (e_approval_flow e))"
    by blast
  note stored = flows_default_stored [OF assms look]
  show ?thesis
    by (simp only: approve_expense_eval(1) [OF gate look can idx])
       (rule flows_default_update [OF assms], insert stored, auto)
qed

lemma flows_default_reject_expense:
  assumes "flows_default s"
  shows "flows_default (fst (reject_expense s eid c now))"
proof (cases "isl (snd (reject_expense s eid c now))")
  case True
  with assms show ?thesis by (simp add: reject_expense_failed)
next
  case False
  then obtain r where "snd (reject_expense s eid c now) = Inr r"
    by (cases "snd (reject_expense s eid c now)") auto
  then have "reject_expense s eid c now = (fst (reject_expense s eid c now), Inr r)"
    by (metis prod.collapse)
  from reject_expense_success_pre [OF this] obtain e where
    gate: "require_role [''Manager'', ''Admin'', ''Finance''] s = None"
    and look: "map_of (EXPENSES s) eid = Some e"
    and can: "check_can_approve s (CURRENT_USER_ID s) e = (True, None)"
    and idx: "e_current_approver_index e < length (LISTS s (e_approval_flow e))"
    by blast
  note stored = flows_default_stored [OF assms look]
  show ?thesis
    by (simp only: reject_expense_eval [OF gate look can idx] fst_conv)
       (rule flows_default_update [OF assms], insert stored, auto)
qed

lemma reachable_flows_default: "reachable s \<Longrightarrow> flows_default s"
proof (induction rule: reachable.induct)
  case loaded
  show ?case by (rule flows_default_module_state)
next
  case (bootstrap s company_id manager_id employee_id)
  then show ?case by (simp add: flows_default_initialize_database)
next
  case (request_as s user_id)
  then show ?case by (simp add: flows_default_acting_as)
next
  case (user_created s data new_user_id)
  then show ?case by (simp add: flows_default_create_user)
next
  case (expense_submitted s ops data expense_id)
  then show ?case by (simp add: flows_default_submit_expense)
next
  case (approved s expense_id comment now)
  then show ?case by (simp add: flows_default_approve_expense)
next
  case (rejected s expense_id comment now)
  then show ?case by (simp add: flows_default_reject_expense)
qed

lemma default_flow_Manager_first:
  "i < length DEFAULT_APPROVAL_FLOW \<Longrightarrow> s_role (DEFAULT_APPROVAL_FLOW ! i) = ''Manager'' \<Longrightarrow> i = 0"
  by (cases i) (auto simp: DEFAULT_APPROVAL_FLOW_def nth_Cons split: nat.splits)

text \<open>
  C8. In every state of the program, for a caller whose role is Manager, Admin or Finance,
  the pending list is the list of the stored expenses, in their order, that belong to the
  caller's company, are not terminal, and that \<open>check_can_approve\<close> allows the caller to act
  on. The manager relationship therefore counts where the check makes it count: at the
  Manager step, which is step 0 of the flow.
\<close>

theorem C8_pending_list_is_the_allowed_list:
  assumes "reachable s"
    and "CURRENT_USER_ID s \<noteq> []"
    and "USERS s (CURRENT_USER_ID s) = Some u"
    and "u_role u \<in> {''Manager'', ''Admin'', ''Finance''}"
  shows "view_pending_expenses s =
           Inr (filter (\<lambda>e. e_company_id e = u_company_id u \<and> \<not> terminal e \<and>
                            check_can_approve s (CURRENT_USER_ID s) e = (True, None))
                  (map snd (EXPENSES s)))"
proof -
  have inv: "flows_default s"
    using assms(1) by (rule reachable_flows_default)
  have role: "get_user_role s (CURRENT_USER_ID s) = Some (u_role u)"
    using assms(3) by (simp add: get_user_role_def)
  have gate: "require_role [''Manager'', ''Admin'', ''Finance''] s = None"
    using assms(2,4) by (simp only: require_role_gate role) auto
  have same: "listed_for s (CURRENT_USER_ID s) (Some (u_role u)) (u_company_id u) e =
                (e_company_id e = u_company_id u \<and> \<not> terminal e \<and>
                 check_can_approve s (CURRENT_USER_ID s) e = (True, None))"
    if "e \<in> set (map snd (EXPENSES s))" for e
  proof -
    from that inv have flow: "LISTS s (e_approval_flow e) = DEFAULT_APPROVAL_FLOW"
      and idx: "e_current_approver_index e < length DEFAULT_APPROVAL_FLOW"
      by (auto simp: flows_default_def)
    have first: "e_current_approver_index e = 0"
      if "s_role (LISTS s (e_approval_flow e) ! e_current_approver_index e) = ''Manager''"
      using that idx by (simp add: flow default_flow_Manager_first)
    from listed_for_matches_check [of e s "CURRENT_USER_ID s" "u_company_id u"] idx first
    show ?thesis by (simp add: flow role)
  qed
  have "filter (listed_for s (CURRENT_USER_ID s) (Some (u_role u)) (u_company_id u))
          (map snd (EXPENSES s)) =
        filter (\<lambda>e. e_company_id e = u_company_id u \<and> \<not> terminal e \<and>
                     check_can_approve s (CURRENT_USER_ID s) e = (True, None))
          (map snd (EXPENSES s))"
    by (rule filter_cong [OF refl]) (rule same)
  with view_pending_expenses_filter [OF gate assms(3)] show ?thesis by simp
qed

lemma reachable_submitted: "reachable submitted"
  unfolding submitted_def seeded_def
  by (intro reachable.expense_submitted reachable.bootstrap reachable.loaded)

theorem C8_witness:
  "reachable (acting_as ''manager-1'' submitted) \<and>
   CURRENT_USER_ID (acting_as ''manager-1'' submitted) \<noteq> [] \<and>
   map_option u_role (USERS (acting_as ''manager-1'' submitted) ''manager-1'') = Some ''Manager'' \<and>
   view_pending_expenses (acting_as ''manager-1'' submitted) = Inr [trip_expense] \<and>
   reachable (acting_as ''admin-user-123'' at_last_step) \<and>
   view_pending_expenses (acting_as ''admin-user-123'' at_last_step) =
     Inr (map snd (EXPENSES at_last_step))"
proof -
  let ?m = "acting_as ''manager-1'' submitted"
  let ?manager = "\<lparr>u_id = ''manager-1'', u_company_id = ''company-1'',
     u_name = ''Jane Manager'', u_role = ''Manager'', u_manager_id = Some ''admin-user-123''\<rparr>"
  have r1: "reachable ?m"
    by (intro reachable.request_as reachable_submitted)
  have id1: "CURRENT_USER_ID ?m \<noteq> []"
    by (simp add: acting_as_fields)
  have u1: "USERS ?m (CURRENT_USER_ID ?m) = Some ?manager"
    by (simp add: acting_as_fields submitted_fields seeded_fields)
  have role1: "u_role ?manager \<in> {''Manager'', ''Admin'', ''Finance''}"
    by simp
  have can1: "check_can_approve ?m ''manager-1'' trip_expense = (True, None)"
    by (simp add: check_can_approve_def get_user_role_def manager_of_def acting_as_fields
          submitted_fields seeded_fields trip_expense_def DEFAULT_APPROVAL_FLOW_def)
  have pending1: "\<not> terminal trip_expense"
    by (simp add: terminal_def trip_expense_def)
  have company1: "e_company_id trip_expense = ''company-1''"
    by (simp add: trip_expense_def)
  from C8_pending_list_is_the_allowed_list [OF r1 id1 u1 role1]
  have list1: "view_pending_expenses ?m = Inr [trip_expense]"
    by (simp add: acting_as_fields submitted_fields can1 pending1 company1)
  let ?a = "acting_as ''admin-user-123'' at_last_step"
  let ?admin = "\<lparr>u_id = ''admin-user-123'', u_company_id = ''company-1'',
     u_name = ''Admin User'', u_role = ''Admin'', u_manager_id = None\<rparr>"
  let ?last = "trip_expense\<lparr>e_history :=
         [\<lparr>h_timestamp = ''t1'', h_action = ''Approved'', h_step = ''Manager Approval'',
           h_approver_id = ''admin-user-123'', h_comment = ''Approved.''\<rparr>,
          \<lparr>h_timestamp = ''t2'', h_action = ''Approved'', h_step = ''Finance Review'',
           h_approver_id = ''admin-user-123'', h_comment = ''Approved.''\<rparr>],
        e_current_approver_index := 2, e_status := ''Pending (Director Sign-off)''\<rparr>"
  have r2: "reachable ?a"
    unfolding at_last_step_def after_first_approval_def director_def
    by (intro reachable.request_as reachable.approved reachable_submitted)
  have fields2: "CURRENT_USER_ID ?a = ''admin-user-123''" "USERS ?a = USERS seeded"
    "EXPENSES ?a = [(''expense-1'', ?last)]" "EXPENSES at_last_step = [(''expense-1'', ?last)]"
    by (simp_all add: acting_as_fields at_last_step_eq director_fields)
  have id2: "CURRENT_USER_ID ?a \<noteq> []"
    by (simp add: fields2)
  have u2: "USERS ?a (CURRENT_USER_ID ?a) = Some ?admin"
    by (simp add: fields2 seeded_fields)
  have role2: "u_role ?admin \<in> {''Manager'', ''Admin'', ''Finance''}"
    by simp
  have can2: "check_can_approve ?a ''admin-user-123'' ?last = (True, None)"
    by (simp add: admin_can fields2)
  have pending2: "\<not> terminal ?last"
    by (simp add: terminal_def)
  have company2: "e_company_id ?last = ''company-1''"
    by (simp add: trip_expense_def)
  from C8_pending_list_is_the_allowed_list [OF r2 id2 u2 role2]
  have list2: "view_pending_expenses ?a = Inr (map snd (EXPENSES at_last_step))"
    by (simp add: fields2 can2 pending2 company2)
  have role1': "map_option u_role (USERS ?m ''manager-1'') = Some ''Manager''"
    by (simp add: acting_as_fields submitted_fields seeded_fields)
  from r1 id1 role1' list1 r2 list2 show ?thesis by blast
qed

end
